theory Spec2Isabelle
  imports Main "HOL-Library.Sublist"
begin

section \<open>The collaborators of the Logger class\<close>

text \<open>
  \<^verbatim>\<open>loggers/logger.py\<close> wraps Python's \<^verbatim>\<open>logging\<close> module and writes below a
  directory of log files. The class is modelled by explicit state passing over one
  record holding the class attributes (\<^verbatim>\<open>_instances\<close>, \<^verbatim>\<open>_run_id\<close>), the objects
  reachable from them (Logger instances and handler objects, by reference), and the
  part of the world the methods read or write: the clock behind \<^verbatim>\<open>datetime.now()\<close>,
  the file system behind \<^verbatim>\<open>os\<close> and \<^verbatim>\<open>shutil\<close>, and the loggers of the
  \<^verbatim>\<open>logging\<close> module. An exception is a value of type \<open>error\<close>; a method returns
  it together with the state it leaves behind. \<open>DanglingReference\<close> is the result on a
  reference that denotes no object; Python has no such reference, and the constructor
  only makes the functions total.
\<close>

datatype error =
    KeyError string
  | AttributeError string
  | FileExistsError
  | FileNotFoundError
  | NotADirectoryError
  | IsADirectoryError
  | OSError_ENAMETOOLONG
  | ValueError
  | DanglingReference

subsection \<open>utils.py: date and time stamps\<close>

record datetime =
  year :: nat
  month :: nat
  day :: nat
  hour :: nat
  minute :: nat
  second :: nat

definition digit :: "nat \<Rightarrow> char" where
  "digit n = ''0123456789'' ! (n mod 10)"

text \<open>Zero-padded decimal fields of \<^verbatim>\<open>strftime\<close>: \<^verbatim>\<open>%m %d %H %M %S\<close> have two digits,
  \<^verbatim>\<open>%Y\<close> has four.\<close>

definition pad2 :: "nat \<Rightarrow> string" where
  "pad2 n = [digit (n div 10), digit n]"

definition pad4 :: "nat \<Rightarrow> string" where
  "pad4 n = [digit (n div 1000), digit (n div 100), digit (n div 10), digit n]"

text \<open>\<^verbatim>\<open>strftime('%Y-%m-%d')\<close> and \<^verbatim>\<open>strftime('%H%M%S')\<close>.\<close>

definition strftime_Ymd :: "datetime \<Rightarrow> string" where
  "strftime_Ymd d = pad4 (year d) @ ''-'' @ pad2 (month d) @ ''-'' @ pad2 (day d)"

definition strftime_HMS :: "datetime \<Rightarrow> string" where
  "strftime_HMS d = pad2 (hour d) @ pad2 (minute d) @ pad2 (second d)"

subsection \<open>Paths and the file system\<close>

text \<open>
  A path is the list of its components below the root. \<open>components\<close> cuts a string at
  the separator \<^verbatim>\<open>/\<close>; \<open>os_path_join\<close> is \<^verbatim>\<open>os.path.join\<close> on a directory that is
  already absolute: a second argument that starts with the separator replaces the
  first, anything else is appended below it. Components are plain names: \<^verbatim>\<open>.\<close> and
  \<^verbatim>\<open>..\<close> are not given their special meaning.
\<close>

type_synonym path = "string list"

fun components_acc :: "string \<Rightarrow> string \<Rightarrow> string list" where
  "components_acc cur [] = (if cur = [] then [] else [cur])"
| "components_acc cur (c # cs) =
     (if c = CHR ''/''
      then (if cur = [] then [] else [cur]) @ components_acc [] cs
      else components_acc (cur @ [c]) cs)"

definition components :: "string \<Rightarrow> string list" where
  "components s = components_acc [] s"

definition os_path_join :: "path \<Rightarrow> string \<Rightarrow> path" where
  "os_path_join p s =
     (case s of
        [] \<Rightarrow> p
      | c # cs \<Rightarrow> if c = CHR ''/'' then components s else p @ components s)"

definition path_str :: "path \<Rightarrow> string" where
  "path_str p = concat (map (\<lambda>c. ''/'' @ c) p)"

text \<open>
  A file system maps a path to a directory or a regular file. What a file holds is
  not part of the model: the records that the \<^verbatim>\<open>logging\<close> module writes into a
  handler's file are not traced.
\<close>

datatype entry = Dir | File

type_synonym filesystem = "path \<Rightarrow> entry option"

text \<open>
  Names the system calls refuse. Python raises \<^verbatim>\<open>ValueError\<close> on a path with an
  embedded null character; the kernel answers \<^verbatim>\<open>ENAMETOOLONG\<close>, an \<^verbatim>\<open>OSError\<close>,
  when a component is longer than \<^verbatim>\<open>NAME_MAX\<close> or the whole path with its
  terminator is longer than \<^verbatim>\<open>PATH_MAX\<close> (the values of Linux). Where a path has
  such a name and also misses a parent, the model reports the name. Permissions,
  quotas and the other limits of a system are not modelled: a call fails only for the
  reasons written out below.
\<close>

definition NAME_MAX :: nat where "NAME_MAX = 255"

definition PATH_MAX :: nat where "PATH_MAX = 4096"

definition name_error :: "path \<Rightarrow> error option" where
  "name_error p =
     (if \<exists>c \<in> set p. CHR 0x00 \<in> set c then Some ValueError
      else if PATH_MAX \<le> length (path_str p) then Some OSError_ENAMETOOLONG
      else if \<exists>c \<in> set p. NAME_MAX < length c then Some OSError_ENAMETOOLONG
      else None)"

text \<open>The root directory always exists.\<close>

definition stat :: "filesystem \<Rightarrow> path \<Rightarrow> entry option" where
  "stat fsys p = (if p = [] then Some Dir else fsys p)"

text \<open>\<^verbatim>\<open>os.path.exists\<close> is False on a path that the system calls refuse.\<close>

definition os_path_exists :: "filesystem \<Rightarrow> path \<Rightarrow> bool" where
  "os_path_exists fsys p =
     (case name_error p of
        Some e \<Rightarrow> False
      | None \<Rightarrow> (case stat fsys p of None \<Rightarrow> False | Some e \<Rightarrow> True))"

text \<open>\<^verbatim>\<open>os.mkdir\<close>: the directory must be new and its parent must be a directory.\<close>

definition os_mkdir :: "path \<Rightarrow> filesystem \<Rightarrow> error option \<times> filesystem" where
  "os_mkdir p fsys =
     (case name_error p of
        Some e \<Rightarrow> (Some e, fsys)
      | None \<Rightarrow>
          (case stat fsys p of
             Some e \<Rightarrow> (Some FileExistsError, fsys)
           | None \<Rightarrow>
               (case stat fsys (butlast p) of
                  None \<Rightarrow> (Some FileNotFoundError, fsys)
                | Some File \<Rightarrow> (Some NotADirectoryError, fsys)
                | Some Dir \<Rightarrow> (None, fsys(p \<mapsto> Dir)))))"

text \<open>
  \<^verbatim>\<open>os.makedirs(name)\<close> with \<^verbatim>\<open>exist_ok=False\<close>: when the parent is missing it is
  made first, recursively, a \<^verbatim>\<open>FileExistsError\<close> of that inner call being passed
  over; then the leaf is made with \<^verbatim>\<open>os.mkdir\<close>.
\<close>

function os_makedirs :: "path \<Rightarrow> filesystem \<Rightarrow> error option \<times> filesystem" where
  "os_makedirs p fsys =
     (if p \<noteq> [] \<and> \<not> os_path_exists fsys (butlast p)
      then (case os_makedirs (butlast p) fsys of
              (None, fsys1) \<Rightarrow> os_mkdir p fsys1
            | (Some e, fsys1) \<Rightarrow>
                if e = FileExistsError then os_mkdir p fsys1 else (Some e, fsys1))
      else os_mkdir p fsys)"
  by pat_completeness auto
termination
  by (relation "measure (\<lambda>(p, fsys). length p)") auto

declare os_makedirs.simps [simp del]

text \<open>
  \<^verbatim>\<open>open(path, "a", encoding=...)\<close>: an existing regular file is kept, a missing one
  is created; the parent must be a directory.
\<close>

definition open_append :: "path \<Rightarrow> filesystem \<Rightarrow> error option \<times> filesystem" where
  "open_append p fsys =
     (case name_error p of
        Some e \<Rightarrow> (Some e, fsys)
      | None \<Rightarrow>
          (case stat fsys p of
             Some Dir \<Rightarrow> (Some IsADirectoryError, fsys)
           | Some File \<Rightarrow> (None, fsys)
           | None \<Rightarrow>
               (case stat fsys (butlast p) of
                  None \<Rightarrow> (Some FileNotFoundError, fsys)
                | Some File \<Rightarrow> (Some NotADirectoryError, fsys)
                | Some Dir \<Rightarrow> (None, fsys(p \<mapsto> File)))))"

text \<open>\<^verbatim>\<open>shutil.rmtree\<close>: removes a directory and everything below it.\<close>

definition shutil_rmtree :: "path \<Rightarrow> filesystem \<Rightarrow> error option \<times> filesystem" where
  "shutil_rmtree p fsys =
     (case stat fsys p of
        None \<Rightarrow> (Some FileNotFoundError, fsys)
      | Some File \<Rightarrow> (Some NotADirectoryError, fsys)
      | Some Dir \<Rightarrow> (None, (\<lambda>q. if prefix p q then None else fsys q)))"

subsection \<open>Objects and the program state\<close>

text \<open>
  A handler of the \<^verbatim>\<open>logging\<close> module: its sink (\<^verbatim>\<open>sys.stderr\<close> for a
  \<^verbatim>\<open>StreamHandler()\<close>, or the file of a \<^verbatim>\<open>FileHandler\<close> with its path, mode and
  encoding), its level, its format and whether \<^verbatim>\<open>close()\<close> was called on it.
\<close>

datatype sink = ConsoleStream | FileStream path string string

record handler =
  sink :: sink
  hlevel :: int
  formatter :: "string option"
  hclosed :: bool

text \<open>A logger of the \<^verbatim>\<open>logging\<close> module: its level and the list of attached handlers.\<close>

record py_logger =
  plevel :: int
  phandlers :: "nat list"

text \<open>
  A Logger instance. \<open>logger\<close> names the \<^verbatim>\<open>logging\<close> logger it wraps; \<open>initialized\<close>
  is False while the attribute \<^verbatim>\<open>_initialized\<close> is missing; \<open>date_dir\<close> and \<open>run_dir\<close>
  are None while the attribute has never been assigned.
\<close>

record logger_obj =
  logger :: string
  handlers :: "string \<Rightarrow> nat option"
  name :: string
  log_file_defaullt_dir :: path
  initialized :: bool
  date_dir :: "path option"
  run_dir :: "path option"

text \<open>
  The state. References are indices into \<open>objs\<close> and \<open>hdlrs\<close>: a new object is appended,
  so its reference differs from every earlier one. \<open>py_loggers\<close> is
  \<^verbatim>\<open>logging.getLogger\<close>: one logger per name, for the life of the process.
  \<open>records\<close> lists the calls made to the emission methods of those loggers (logger
  name, level, message); what the \<^verbatim>\<open>logging\<close> module then does with a record is not
  modelled. \<open>valid_format\<close> says which format strings \<^verbatim>\<open>logging.Formatter\<close> accepts.
\<close>

record state =
  instances :: "string \<Rightarrow> nat option"
  run_id :: "string option"
  objs :: "logger_obj list"
  hdlrs :: "handler list"
  py_loggers :: "string \<Rightarrow> py_logger"
  records :: "(string \<times> int \<times> string) list"
  fs :: filesystem
  cwd :: path
  clock :: "nat \<Rightarrow> datetime"
  ticks :: nat
  valid_format :: "string \<Rightarrow> bool"

definition DEBUG :: int where "DEBUG = 10"
definition INFO :: int where "INFO = 20"
definition WARNING :: int where "WARNING = 30"
definition ERROR :: int where "ERROR = 40"
definition CRITICAL :: int where "CRITICAL = 50"

definition FORMAT_BASIC :: string where
  "FORMAT_BASIC = ''%(asctime)s - %(levelname)s - %(message)s''"

definition LOG_FILE_DEFAULT_DIRECTORY :: string where
  "LOG_FILE_DEFAULT_DIRECTORY = ''data'' @ [CHR 0x5C] @ ''logs''"

definition obj_at :: "state \<Rightarrow> nat \<Rightarrow> logger_obj option" where
  "obj_at s a = (if a < length (objs s) then Some (objs s ! a) else None)"

definition put_obj :: "nat \<Rightarrow> logger_obj \<Rightarrow> state \<Rightarrow> state" where
  "put_obj a L s = s\<lparr>objs := (objs s)[a := L]\<rparr>"

subsection \<open>The calls into the logging module\<close>

definition py_setLevel :: "string \<Rightarrow> int \<Rightarrow> state \<Rightarrow> state" where
  "py_setLevel n lvl s = s\<lparr>py_loggers := (py_loggers s)(n := (py_loggers s n)\<lparr>plevel := lvl\<rparr>)\<rparr>"

text \<open>\<^verbatim>\<open>Logger.addHandler\<close> appends a handler that is not attached yet;
  \<^verbatim>\<open>Logger.removeHandler\<close> removes one that is.\<close>

definition py_addHandler :: "string \<Rightarrow> nat \<Rightarrow> state \<Rightarrow> state" where
  "py_addHandler n h s =
     (let pl = py_loggers s n in
      if h \<in> set (phandlers pl) then s
      else s\<lparr>py_loggers := (py_loggers s)(n := pl\<lparr>phandlers := phandlers pl @ [h]\<rparr>)\<rparr>)"

definition py_removeHandler :: "string \<Rightarrow> nat \<Rightarrow> state \<Rightarrow> state" where
  "py_removeHandler n h s =
     (let pl = py_loggers s n in
      if h \<in> set (phandlers pl)
      then s\<lparr>py_loggers := (py_loggers s)(n := pl\<lparr>phandlers := remove1 h (phandlers pl)\<rparr>)\<rparr>
      else s)"

definition py_log :: "string \<Rightarrow> int \<Rightarrow> string \<Rightarrow> state \<Rightarrow> state" where
  "py_log n lvl msg s = s\<lparr>records := records s @ [(n, lvl, msg)]\<rparr>"

text \<open>\<^verbatim>\<open>logging.Formatter(format)\<close> raises \<^verbatim>\<open>ValueError\<close> on a format it rejects.\<close>

definition Formatter :: "state \<Rightarrow> string \<Rightarrow> error + string" where
  "Formatter s fmt = (if valid_format s fmt then Inr fmt else Inl ValueError)"

subsection \<open>utils.py: the functions\<close>

definition datetime_now :: "state \<Rightarrow> datetime \<times> state" where
  "datetime_now s = (clock s (ticks s), s\<lparr>ticks := Suc (ticks s)\<rparr>)"

definition create_datestamp :: "state \<Rightarrow> string \<times> state" where
  "create_datestamp s = (let (d, s1) = datetime_now s in (strftime_Ymd d, s1))"

definition create_timestamp :: "state \<Rightarrow> string \<times> state" where
  "create_timestamp s = (let (d, s1) = datetime_now s in (strftime_HMS d, s1))"

definition create_log_datetime_stamp :: "state \<Rightarrow> string \<times> state" where
  "create_log_datetime_stamp s =
     (let (ds, s1) = create_datestamp s;
          (ts, s2) = create_timestamp s1
      in (ds @ ''_'' @ ts, s2))"

definition compose_global_run_id :: "string \<Rightarrow> state \<Rightarrow> string \<times> state" where
  "compose_global_run_id run_name s =
     (let (time_id, s1) = create_log_datetime_stamp s
      in (time_id @ ''_'' @ run_name, s1))"

section \<open>logger.py: the class Logger\<close>

subsection \<open>Construction and the class methods\<close>

text \<open>
  \<^verbatim>\<open>Logger.__new__\<close>: a registered name gives back the stored instance. Otherwise a
  new instance is allocated, bound to \<^verbatim>\<open>logging.getLogger(name)\<close> with level
  \<^verbatim>\<open>DEBUG\<close>, the class-wide run identifier is generated unless the class already has
  one, and the instance is stored under the name.
\<close>

definition Logger_new :: "string \<Rightarrow> state \<Rightarrow> nat \<times> state" where
  "Logger_new nm s =
     (case instances s nm of
        Some a \<Rightarrow> (a, s)
      | None \<Rightarrow>
          (let a = length (objs s);
               s1 = s\<lparr>objs := objs s @
                      [\<lparr>logger = nm, handlers = (\<lambda>h. None), name = [],
                        log_file_defaullt_dir = [], initialized = False,
                        date_dir = None, run_dir = None\<rparr>]\<rparr>;
               s2 = py_setLevel nm DEBUG s1;
               s3 = (case run_id s2 of
                       Some r \<Rightarrow> s2
                     | None \<Rightarrow>
                         (let (stamp, s') = create_log_datetime_stamp s2
                          in s'\<lparr>run_id := Some stamp\<rparr>))
           in (a, s3\<lparr>instances := (instances s3)(nm \<mapsto> a)\<rparr>)))"

text \<open>
  \<^verbatim>\<open>Logger.__init__\<close>: returns at once on an initialized instance. Otherwise it sets
  \<^verbatim>\<open>handlers\<close>, \<^verbatim>\<open>name\<close> and the log directory, creates that directory when the
  path does not exist, and marks the instance as initialized.
\<close>

definition Logger_init :: "nat \<Rightarrow> string \<Rightarrow> string \<Rightarrow> state \<Rightarrow> error option \<times> state" where
  "Logger_init self nm log_file_default_dir s =
     (case obj_at s self of
        None \<Rightarrow> (Some DanglingReference, s)
      | Some L \<Rightarrow>
          if initialized L then (None, s)
          else
            (let base = os_path_join (cwd s) log_file_default_dir;
                 L1 = L\<lparr>handlers := (\<lambda>h. None), name := nm, log_file_defaullt_dir := base\<rparr>;
                 s1 = put_obj self L1 s
             in if \<not> os_path_exists (fs s1) base
                then (case os_makedirs base (fs s1) of
                        (Some e, fs1) \<Rightarrow> (Some e, s1\<lparr>fs := fs1\<rparr>)
                      | (None, fs1) \<Rightarrow>
                          (None, put_obj self (L1\<lparr>initialized := True\<rparr>) (s1\<lparr>fs := fs1\<rparr>)))
                else (None, put_obj self (L1\<lparr>initialized := True\<rparr>) s1)))"

text \<open>The call \<^verbatim>\<open>Logger(name, log_file_default_dir)\<close>: \<^verbatim>\<open>__new__\<close>, then
  \<^verbatim>\<open>__init__\<close> on the instance it returned.\<close>

definition Logger_call :: "string \<Rightarrow> string \<Rightarrow> state \<Rightarrow> (error + nat) \<times> state" where
  "Logger_call nm log_file_default_dir s =
     (let (a, s1) = Logger_new nm s
      in (case Logger_init a nm log_file_default_dir s1 of
            (Some e, s2) \<Rightarrow> (Inl e, s2)
          | (None, s2) \<Rightarrow> (Inr a, s2)))"

definition get_logger :: "string \<Rightarrow> state \<Rightarrow> (error + nat) \<times> state" where
  "get_logger nm s =
     (case instances s nm of
        Some a \<Rightarrow> (Inr a, s)
      | None \<Rightarrow>
          (Inl (KeyError (''Logger instance with name '' @ [CHR 0x27] @ nm @ [CHR 0x27]
                            @ '' does not exist.'')), s))"

definition set_run_name :: "string \<Rightarrow> state \<Rightarrow> state" where
  "set_run_name run_name s =
     (let (rid, s1) = compose_global_run_id run_name s in s1\<lparr>run_id := Some rid\<rparr>)"

text \<open>\<^verbatim>\<open>_get_run_id\<close> and the property \<^verbatim>\<open>run_id\<close>: read the class attribute, which is
  missing until the first instance is made or a run name is set.\<close>

definition get_run_id :: "state \<Rightarrow> error + string" where
  "get_run_id s =
     (case run_id s of None \<Rightarrow> Inl (AttributeError ''_run_id'') | Some r \<Rightarrow> Inr r)"

text \<open>
  \<^verbatim>\<open>Logger._del_logger\<close>: for a registered name, every handler attached to the wrapped
  \<^verbatim>\<open>logging\<close> logger is passed to \<^verbatim>\<open>removeHandler\<close>, that logger's handler list is
  cleared, and the name is deleted from \<^verbatim>\<open>_instances\<close>.
\<close>

definition del_logger :: "string \<Rightarrow> state \<Rightarrow> error option \<times> state" where
  "del_logger nm s =
     (case instances s nm of
        None \<Rightarrow> (None, s)
      | Some a \<Rightarrow>
          (case obj_at s a of
             None \<Rightarrow> (Some DanglingReference, s)
           | Some L \<Rightarrow>
               (let s1 = fold (py_removeHandler (logger L)) (phandlers (py_loggers s (logger L))) s;
                    s2 = s1\<lparr>py_loggers := (py_loggers s1)
                            (logger L := (py_loggers s1 (logger L))\<lparr>phandlers := []\<rparr>)\<rparr>
                in (None, s2\<lparr>instances := (instances s2)(nm := None)\<rparr>))))"

subsection \<open>Handlers\<close>

definition handler_exists :: "logger_obj \<Rightarrow> string \<Rightarrow> bool" where
  "handler_exists L handler_name = (case handlers L handler_name of None \<Rightarrow> False | Some h \<Rightarrow> True)"

definition already_exists_msg :: "string \<Rightarrow> logger_obj \<Rightarrow> string" where
  "already_exists_msg handler_name L =
     ''Handler with name '' @ handler_name @ '' already exists in logger '' @ name L"

text \<open>
  \<^verbatim>\<open>add_console_handler\<close>: warns and returns when the name is taken; otherwise makes
  a \<^verbatim>\<open>StreamHandler\<close>, sets its formatter and level, stores it under the name and
  attaches it.
\<close>

definition add_console_handler ::
  "nat \<Rightarrow> string \<Rightarrow> int \<Rightarrow> string \<Rightarrow> state \<Rightarrow> error option \<times> state" where
  "add_console_handler self nm lvl fmt s =
     (case obj_at s self of
        None \<Rightarrow> (Some DanglingReference, s)
      | Some L \<Rightarrow>
          if handler_exists L nm
          then (None, py_log (logger L) WARNING (already_exists_msg nm L) s)
          else
            (let h = length (hdlrs s);
                 s1 = s\<lparr>hdlrs := hdlrs s @
                        [\<lparr>sink = ConsoleStream, hlevel = 0, formatter = None, hclosed = False\<rparr>]\<rparr>
             in (case Formatter s1 fmt of
                   Inl e \<Rightarrow> (Some e, s1)
                 | Inr f \<Rightarrow>
                     (let s2 = s1\<lparr>hdlrs := (hdlrs s1)
                                 [h := (hdlrs s1 ! h)\<lparr>formatter := Some f, hlevel := lvl\<rparr>]\<rparr>;
                          s3 = put_obj self (L\<lparr>handlers := (handlers L)(nm \<mapsto> h)\<rparr>) s2
                      in (None, py_addHandler (logger L) h s3)))))"

text \<open>
  \<^verbatim>\<open>_create_todays_log_dir\<close>: stores the path of the directory of today's date in
  \<^verbatim>\<open>self.date_dir\<close>, creates it when the path does not exist, and returns it.
\<close>

definition create_todays_log_dir :: "nat \<Rightarrow> state \<Rightarrow> (error + path) \<times> state" where
  "create_todays_log_dir self s =
     (case obj_at s self of
        None \<Rightarrow> (Inl DanglingReference, s)
      | Some L \<Rightarrow>
          (let (date_stamp, s1) = create_datestamp s;
               d = os_path_join (log_file_defaullt_dir L) date_stamp;
               s2 = put_obj self (L\<lparr>date_dir := Some d\<rparr>) s1
           in if \<not> os_path_exists (fs s2) d
              then (case os_makedirs d (fs s2) of
                      (Some e, fs1) \<Rightarrow> (Inl e, s2\<lparr>fs := fs1\<rparr>)
                    | (None, fs1) \<Rightarrow> (Inr d, s2\<lparr>fs := fs1\<rparr>))
              else (Inr d, s2)))"

text \<open>
  \<^verbatim>\<open>_create_run_id_dir\<close>: below today's directory, stores the path of the directory
  named by the run identifier in \<^verbatim>\<open>self.run_dir\<close>, creates it when the path does not
  exist, and returns it.
\<close>

definition create_run_id_dir :: "nat \<Rightarrow> state \<Rightarrow> (error + path) \<times> state" where
  "create_run_id_dir self s =
     (case create_todays_log_dir self s of
        (Inl e, s1) \<Rightarrow> (Inl e, s1)
      | (Inr date_path, s1) \<Rightarrow>
          (case get_run_id s1 of
             Inl e \<Rightarrow> (Inl e, s1)
           | Inr rid \<Rightarrow>
               (case obj_at s1 self of
                  None \<Rightarrow> (Inl DanglingReference, s1)
                | Some L \<Rightarrow>
                    (let r = os_path_join date_path rid;
                         s2 = put_obj self (L\<lparr>run_dir := Some r\<rparr>) s1
                     in if \<not> os_path_exists (fs s2) r
                        then (case os_makedirs r (fs s2) of
                                (Some e, fs1) \<Rightarrow> (Inl e, s2\<lparr>fs := fs1\<rparr>)
                              | (None, fs1) \<Rightarrow> (Inr r, s2\<lparr>fs := fs1\<rparr>))
                        else (Inr r, s2)))))"

text \<open>
  \<^verbatim>\<open>logging.FileHandler(filename, mode, encoding)\<close> opens the file when it is
  constructed; the new handler has level \<^verbatim>\<open>NOTSET\<close> and no formatter.
\<close>

definition FileHandler :: "path \<Rightarrow> string \<Rightarrow> string \<Rightarrow> state \<Rightarrow> (error + nat) \<times> state" where
  "FileHandler filename md enc s =
     (case open_append filename (fs s) of
        (Some e, fs1) \<Rightarrow> (Inl e, s\<lparr>fs := fs1\<rparr>)
      | (None, fs1) \<Rightarrow>
          (Inr (length (hdlrs s)),
           s\<lparr>fs := fs1,
             hdlrs := hdlrs s @
               [\<lparr>sink = FileStream filename md enc, hlevel = 0, formatter = None,
                 hclosed = False\<rparr>]\<rparr>))"

definition file_added_msg :: "string \<Rightarrow> logger_obj \<Rightarrow> path \<Rightarrow> string" where
  "file_added_msg handler_name L file_path =
     ''File handler '' @ handler_name @ '' added to logger '' @ name L @ '' with path: ''
       @ path_str file_path"

text \<open>
  \<^verbatim>\<open>add_file_handler\<close>: warns and returns when the name is taken; otherwise builds
  the file name from the run identifier and the handler name, makes the directory of
  the run, opens the file there in mode \<^verbatim>\<open>"a"\<close> with encoding \<^verbatim>\<open>"utf-8"\<close>, sets
  formatter and level, stores the handler under the name, attaches it, and logs a
  debug message.
\<close>

definition add_file_handler ::
  "nat \<Rightarrow> string \<Rightarrow> int \<Rightarrow> string \<Rightarrow> state \<Rightarrow> error option \<times> state" where
  "add_file_handler self handler_name lvl fmt s =
     (case obj_at s self of
        None \<Rightarrow> (Some DanglingReference, s)
      | Some L \<Rightarrow>
          if handler_exists L handler_name
          then (None, py_log (logger L) WARNING (already_exists_msg handler_name L) s)
          else
            (case get_run_id s of
               Inl e \<Rightarrow> (Some e, s)
             | Inr rid \<Rightarrow>
                 (let full_filename = rid @ ''_'' @ handler_name @ ''.log''
                  in (case create_run_id_dir self s of
                        (Inl e, s1) \<Rightarrow> (Some e, s1)
                      | (Inr run_id_dir, s1) \<Rightarrow>
                          (let file_path = os_path_join run_id_dir full_filename
                           in (case FileHandler file_path ''a'' ''utf-8'' s1 of
                                 (Inl e, s2) \<Rightarrow> (Some e, s2)
                               | (Inr h, s2) \<Rightarrow>
                                   (case Formatter s2 fmt of
                                      Inl e \<Rightarrow> (Some e, s2)
                                    | Inr f \<Rightarrow>
                                        (case obj_at s2 self of
                                           None \<Rightarrow> (Some DanglingReference, s2)
                                         | Some L2 \<Rightarrow>
                                             (let s3 = s2\<lparr>hdlrs := (hdlrs s2)
                                                         [h := (hdlrs s2 ! h)
                                                            \<lparr>formatter := Some f, hlevel := lvl\<rparr>]\<rparr>;
                                                  s4 = put_obj self
                                                         (L2\<lparr>handlers := (handlers L2)(handler_name \<mapsto> h)\<rparr>) s3;
                                                  s5 = py_addHandler (logger L2) h s4
                                              in (None,
                                                  py_log (logger L2) DEBUG
                                                    (file_added_msg handler_name L2 file_path) s5))))))))))"

text \<open>
  \<^verbatim>\<open>join_handler\<close>: looks the other Logger up in \<^verbatim>\<open>_instances\<close> and the handler in
  its \<^verbatim>\<open>handlers\<close> (each a subscript, so a missing key raises \<^verbatim>\<open>KeyError\<close>), then
  stores that handler under the same name in this Logger and attaches it.
\<close>

definition join_handler :: "nat \<Rightarrow> string \<Rightarrow> string \<Rightarrow> state \<Rightarrow> error option \<times> state" where
  "join_handler self logger_name handler_name s =
     (case obj_at s self of
        None \<Rightarrow> (Some DanglingReference, s)
      | Some L \<Rightarrow>
          (case instances s logger_name of
             None \<Rightarrow> (Some (KeyError logger_name), s)
           | Some b \<Rightarrow>
               (case obj_at s b of
                  None \<Rightarrow> (Some DanglingReference, s)
                | Some logger_instance \<Rightarrow>
                    (case handlers logger_instance handler_name of
                       None \<Rightarrow> (Some (KeyError handler_name), s)
                     | Some h \<Rightarrow>
                         (let s1 = put_obj self (L\<lparr>handlers := (handlers L)(handler_name \<mapsto> h)\<rparr>) s
                          in (None, py_addHandler (logger L) h s1))))))"

definition remove_missing_msg :: "string \<Rightarrow> logger_obj \<Rightarrow> string" where
  "remove_missing_msg handler_name L =
     ''Logger.remove_handler() -> Handler '' @ handler_name @ '' does not exist in logger ''
       @ name L"

definition remove_handler :: "nat \<Rightarrow> string \<Rightarrow> state \<Rightarrow> error option \<times> state" where
  "remove_handler self handler_name s =
     (case obj_at s self of
        None \<Rightarrow> (Some DanglingReference, s)
      | Some L \<Rightarrow>
          (case handlers L handler_name of
             Some h \<Rightarrow>
               (let s1 = py_removeHandler (logger L) h s
                in (None, put_obj self (L\<lparr>handlers := (handlers L)(handler_name := None)\<rparr>) s1))
           | None \<Rightarrow>
               (None, py_log (logger L) WARNING (remove_missing_msg handler_name L) s)))"

definition level_missing_msg :: "string \<Rightarrow> logger_obj \<Rightarrow> string" where
  "level_missing_msg handler_name L =
     ''Logger.set_handler_level() -> Handler '' @ handler_name @ '' does not exist in logger ''
       @ name L"

definition set_handler_level :: "nat \<Rightarrow> string \<Rightarrow> int \<Rightarrow> state \<Rightarrow> error option \<times> state" where
  "set_handler_level self handler_name lvl s =
     (case obj_at s self of
        None \<Rightarrow> (Some DanglingReference, s)
      | Some L \<Rightarrow>
          (case handlers L handler_name of
             Some h \<Rightarrow>
               (None, s\<lparr>hdlrs := (hdlrs s)[h := (hdlrs s ! h)\<lparr>hlevel := lvl\<rparr>]\<rparr>)
           | None \<Rightarrow>
               (None, py_log (logger L) WARNING (level_missing_msg handler_name L) s)))"

text \<open>
  \<^verbatim>\<open>clear_todays_logs\<close>: reads \<^verbatim>\<open>self.date_dir\<close>, which only
  \<^verbatim>\<open>_create_todays_log_dir\<close> assigns, and removes that directory tree when the path
  exists.
\<close>

definition clear_todays_logs :: "nat \<Rightarrow> state \<Rightarrow> error option \<times> state" where
  "clear_todays_logs self s =
     (case obj_at s self of
        None \<Rightarrow> (Some DanglingReference, s)
      | Some L \<Rightarrow>
          (case date_dir L of
             None \<Rightarrow> (Some (AttributeError ''date_dir''), s)
           | Some d \<Rightarrow>
               if os_path_exists (fs s) d
               then (case shutil_rmtree d (fs s) of (e, fs1) \<Rightarrow> (e, s\<lparr>fs := fs1\<rparr>))
               else (None, s)))"

subsection \<open>A start state and some runs\<close>

text \<open>
  The state of a fresh process in the directory \<^verbatim>\<open>/srv\<close>: no instance, no run
  identifier, no handler, every \<^verbatim>\<open>logging\<close> logger at level \<^verbatim>\<open>NOTSET\<close> without
  handlers, the clock at 2025-03-09 14:05:07, and a \<^verbatim>\<open>logging.Formatter\<close> that
  accepts the formats holding a \<^verbatim>\<open>%\<close> field.
\<close>

definition clock0 :: "nat \<Rightarrow> datetime" where
  "clock0 t = \<lparr>year = 2025, month = 3, day = 9, hour = 14, minute = 5, second = 7\<rparr>"

definition start_state :: state where
  "start_state =
     \<lparr>instances = (\<lambda>n. None), run_id = None, objs = [], hdlrs = [],
      py_loggers = (\<lambda>n. \<lparr>plevel = 0, phandlers = []\<rparr>), records = [],
      fs = [[''srv''] \<mapsto> Dir], cwd = [''srv''], clock = clock0, ticks = 0,
      valid_format = (\<lambda>f. CHR ''%'' \<in> set f)\<rparr>"

text \<open>\<^verbatim>\<open>Logger("svc", "logs")\<close> in the start state.\<close>

definition svc_state :: state where
  "svc_state = snd (Logger_call ''svc'' ''logs'' start_state)"

text \<open>Then \<^verbatim>\<open>add_console_handler("out", WARNING)\<close> on that Logger.\<close>

definition console_state :: state where
  "console_state = snd (add_console_handler 0 ''out'' WARNING FORMAT_BASIC svc_state)"

text \<open>Or \<^verbatim>\<open>add_file_handler("main", DEBUG)\<close> on it.\<close>

definition file_state :: state where
  "file_state = snd (add_file_handler 0 ''main'' DEBUG FORMAT_BASIC svc_state)"

text \<open>
  Two Loggers, \<^verbatim>\<open>svc\<close> with a console handler \<^verbatim>\<open>out\<close> at level \<^verbatim>\<open>WARNING\<close> and
  \<^verbatim>\<open>db\<close> with a console handler \<^verbatim>\<open>out\<close> at level \<^verbatim>\<open>DEBUG\<close>.
\<close>

definition two_state :: state where
  "two_state =
     snd (add_console_handler 1 ''out'' DEBUG FORMAT_BASIC
            (snd (Logger_call ''db'' ''logs'' console_state)))"

text \<open>
  A Logger \<^verbatim>\<open>b\<close> whose directory argument is the path of the log file that
  \<^verbatim>\<open>svc\<close> opened: the constructor finds the path present and makes nothing.
\<close>

definition blocked_state :: state where
  "blocked_state =
     snd (Logger_call ''b'' ''logs/2025-03-09/2025-03-09_140507/2025-03-09_140507_main.log''
            file_state)"

text \<open>
  A Logger \<^verbatim>\<open>c\<close> whose directory argument is the path that a file handler \<^verbatim>\<open>x\<close>
  of \<^verbatim>\<open>svc\<close> would write to: the constructor makes that path a directory.
\<close>

definition taken_state :: state where
  "taken_state =
     snd (Logger_call ''c'' ''logs/2025-03-09/2025-03-09_140507/2025-03-09_140507_x.log''
            svc_state)"

section \<open>Evaluating the runs\<close>

lemmas eval_defs = Logger_call_def Logger_new_def Logger_init_def
  create_log_datetime_stamp_def create_datestamp_def create_timestamp_def datetime_now_def
  py_setLevel_def obj_at_def put_obj_def os_path_join_def components_def os_path_exists_def
  stat_def os_makedirs.simps os_mkdir_def name_error_def path_str_def NAME_MAX_def
  PATH_MAX_def clock0_def strftime_Ymd_def strftime_HMS_def
  pad2_def pad4_def digit_def Let_def DEBUG_def

lemma svc_run:
  "Logger_call ''svc'' ''logs'' start_state =
     (Inr 0,
      \<lparr>instances = [''svc'' \<mapsto> 0], run_id = Some ''2025-03-09_140507'',
       objs = [\<lparr>logger = ''svc'', handlers = (\<lambda>h. None), name = ''svc'',
                log_file_defaullt_dir = [''srv'', ''logs''], initialized = True,
                date_dir = None, run_dir = None\<rparr>],
       hdlrs = [],
       py_loggers = (\<lambda>n. \<lparr>plevel = 0, phandlers = []\<rparr>)
                      (''svc'' := \<lparr>plevel = 10, phandlers = []\<rparr>),
       records = [],
       fs = [[''srv''] \<mapsto> Dir, [''srv'', ''logs''] \<mapsto> Dir], cwd = [''srv''],
       clock = clock0, ticks = 2, valid_format = (\<lambda>f. CHR ''%'' \<in> set f)\<rparr>)"
  by (simp add: start_state_def eval_defs)

lemmas svc_state_eq = svc_state_def [unfolded svc_run snd_conv]

lemma console_run:
  "add_console_handler 0 ''out'' WARNING FORMAT_BASIC svc_state =
     (None,
      \<lparr>instances = [''svc'' \<mapsto> 0], run_id = Some ''2025-03-09_140507'',
       objs = [\<lparr>logger = ''svc'', handlers = [''out'' \<mapsto> 0], name = ''svc'',
                log_file_defaullt_dir = [''srv'', ''logs''], initialized = True,
                date_dir = None, run_dir = None\<rparr>],
       hdlrs = [\<lparr>sink = ConsoleStream, hlevel = 30, formatter = Some FORMAT_BASIC,
                 hclosed = False\<rparr>],
       py_loggers = (\<lambda>n. \<lparr>plevel = 0, phandlers = []\<rparr>)
                      (''svc'' := \<lparr>plevel = 10, phandlers = [0]\<rparr>),
       records = [],
       fs = [[''srv''] \<mapsto> Dir, [''srv'', ''logs''] \<mapsto> Dir], cwd = [''srv''],
       clock = clock0, ticks = 2, valid_format = (\<lambda>f. CHR ''%'' \<in> set f)\<rparr>)"
  by (simp add: svc_state_eq add_console_handler_def obj_at_def handler_exists_def
      Formatter_def FORMAT_BASIC_def put_obj_def py_addHandler_def Let_def WARNING_def)

lemmas console_state_eq = console_state_def [unfolded console_run snd_conv]

lemma file_run:
  "add_file_handler 0 ''main'' DEBUG FORMAT_BASIC svc_state =
     (None,
      \<lparr>instances = [''svc'' \<mapsto> 0], run_id = Some ''2025-03-09_140507'',
       objs = [\<lparr>logger = ''svc'', handlers = [''main'' \<mapsto> 0], name = ''svc'',
                log_file_defaullt_dir = [''srv'', ''logs''], initialized = True,
                date_dir = Some [''srv'', ''logs'', ''2025-03-09''],
                run_dir = Some [''srv'', ''logs'', ''2025-03-09'', ''2025-03-09_140507'']\<rparr>],
       hdlrs = [\<lparr>sink = FileStream [''srv'', ''logs'', ''2025-03-09'', ''2025-03-09_140507'',
                                      ''2025-03-09_140507_main.log''] ''a'' ''utf-8'',
                 hlevel = 10, formatter = Some FORMAT_BASIC, hclosed = False\<rparr>],
       py_loggers = (\<lambda>n. \<lparr>plevel = 0, phandlers = []\<rparr>)
                      (''svc'' := \<lparr>plevel = 10, phandlers = [0]\<rparr>),
       records = [(''svc'', 10,
                   ''File handler main added to logger svc with path: /srv/logs/2025-03-09/2025-03-09_140507/2025-03-09_140507_main.log'')],
       fs = [[''srv''] \<mapsto> Dir, [''srv'', ''logs''] \<mapsto> Dir,
             [''srv'', ''logs'', ''2025-03-09''] \<mapsto> Dir,
             [''srv'', ''logs'', ''2025-03-09'', ''2025-03-09_140507''] \<mapsto> Dir,
             [''srv'', ''logs'', ''2025-03-09'', ''2025-03-09_140507'',
              ''2025-03-09_140507_main.log''] \<mapsto> File],
       cwd = [''srv''],
       clock = clock0, ticks = 3, valid_format = (\<lambda>f. CHR ''%'' \<in> set f)\<rparr>)"
  by (simp add: svc_state_eq add_file_handler_def create_run_id_dir_def
      create_todays_log_dir_def get_run_id_def FileHandler_def open_append_def
      file_added_msg_def path_str_def handler_exists_def Formatter_def FORMAT_BASIC_def
      py_addHandler_def py_log_def eval_defs)

lemmas file_state_eq = file_state_def [unfolded file_run snd_conv]

lemma two_run:
  "two_state =
      \<lparr>instances = [''svc'' \<mapsto> 0, ''db'' \<mapsto> 1], run_id = Some ''2025-03-09_140507'',
       objs = [\<lparr>logger = ''svc'', handlers = [''out'' \<mapsto> 0], name = ''svc'',
                log_file_defaullt_dir = [''srv'', ''logs''], initialized = True,
                date_dir = None, run_dir = None\<rparr>,
               \<lparr>logger = ''db'', handlers = [''out'' \<mapsto> 1], name = ''db'',
                log_file_defaullt_dir = [''srv'', ''logs''], initialized = True,
                date_dir = None, run_dir = None\<rparr>],
       hdlrs = [\<lparr>sink = ConsoleStream, hlevel = 30, formatter = Some FORMAT_BASIC,
                 hclosed = False\<rparr>,
                \<lparr>sink = ConsoleStream, hlevel = 10, formatter = Some FORMAT_BASIC,
                 hclosed = False\<rparr>],
       py_loggers = (\<lambda>n. \<lparr>plevel = 0, phandlers = []\<rparr>)
                      (''svc'' := \<lparr>plevel = 10, phandlers = [0]\<rparr>,
                       ''db'' := \<lparr>plevel = 10, phandlers = [1]\<rparr>),
       records = [],
       fs = [[''srv''] \<mapsto> Dir, [''srv'', ''logs''] \<mapsto> Dir], cwd = [''srv''],
       clock = clock0, ticks = 2, valid_format = (\<lambda>f. CHR ''%'' \<in> set f)\<rparr>"
  by (simp add: two_state_def console_state_eq add_console_handler_def handler_exists_def
      Formatter_def FORMAT_BASIC_def py_addHandler_def eval_defs)

section \<open>The registry of instances\<close>

lemma create_log_datetime_stamp_frame:
  "create_log_datetime_stamp s =
     (strftime_Ymd (clock s (ticks s)) @ ''_'' @ strftime_HMS (clock s (Suc (ticks s))),
      s\<lparr>ticks := Suc (Suc (ticks s))\<rparr>)"
  by (simp add: create_log_datetime_stamp_def create_datestamp_def create_timestamp_def
      datetime_now_def)

lemma Logger_new_stores:
  "Logger_new n s = (a, s1) \<Longrightarrow> instances s1 n = Some a"
  by (cases "instances s n")
     (auto simp: Logger_new_def Let_def py_setLevel_def create_log_datetime_stamp_frame
       split: option.splits)

lemma Logger_init_done:
  assumes "Logger_init a n d s1 = (None, s2)"
  shows "instances s2 = instances s1 \<and> (\<exists>L. obj_at s2 a = Some L \<and> initialized L)"
  using assms
  by (auto simp: Logger_init_def Let_def put_obj_def obj_at_def
      split: option.splits if_splits prod.splits)

lemma Logger_call_registered:
  "instances s n = Some a \<Longrightarrow> obj_at s a = Some L \<Longrightarrow> initialized L \<Longrightarrow>
     Logger_call n d s = (Inr a, s)"
  by (simp add: Logger_call_def Logger_new_def Logger_init_def)

text \<open>
  C1. When \<^verbatim>\<open>Logger(n)\<close> returns an instance, that instance is the one stored under
  \<open>n\<close>, and a second request for \<open>n\<close> (with any directory argument) returns the same
  reference and leaves the whole state as it was: nothing is constructed.
\<close>

theorem Logger_call_twice_same_instance:
  assumes "fst (Logger_call n d s) = Inr a"
  shows "instances (snd (Logger_call n d s)) n = Some a \<and>
         Logger_call n d' (snd (Logger_call n d s)) = (Inr a, snd (Logger_call n d s))"
proof -
  obtain a' s1 where new: "Logger_new n s = (a', s1)"
    by (cases "Logger_new n s")
  obtain e s2 where init: "Logger_init a' n d s1 = (e, s2)"
    by (cases "Logger_init a' n d s1")
  from assms new init have e: "e = None" and a: "a' = a"
    by (auto simp: Logger_call_def split: option.splits)
  from new init e a have call: "Logger_call n d s = (Inr a, s2)"
    by (simp add: Logger_call_def)
  from Logger_new_stores [OF new] a have "instances s1 n = Some a" by simp
  moreover from Logger_init_done init e a
  obtain L where "instances s2 = instances s1" "obj_at s2 a = Some L" "initialized L"
    by blast
  ultimately have "instances s2 n = Some a \<and> Logger_call n d' s2 = (Inr a, s2)"
    using Logger_call_registered by simp
  with call show ?thesis by simp
qed

theorem Logger_call_twice_witness:
  "fst (Logger_call ''svc'' ''logs'' start_state) = Inr 0 \<and>
   instances svc_state ''svc'' = Some 0 \<and>
   Logger_call ''svc'' ''elsewhere'' svc_state = (Inr 0, svc_state)"
  using Logger_call_twice_same_instance [of "''svc''" "''logs''" start_state 0 "''elsewhere''"]
  by (simp add: svc_run svc_state_def)

text \<open>
  C6. \<^verbatim>\<open>get_logger\<close> on a name that is not registered raises \<^verbatim>\<open>KeyError\<close>, the
  lookup error of the implementation, to its caller; on a registered name it returns
  the registered instance. In both cases the state, and so the registry, is unchanged.
\<close>

theorem get_logger_registered_or_KeyError:
  "(instances s n = None \<longrightarrow> (\<exists>m. get_logger n s = (Inl (KeyError m), s))) \<and>
   (\<forall>a. instances s n = Some a \<longrightarrow> get_logger n s = (Inr a, s))"
  by (simp add: get_logger_def)

theorem get_logger_witness:
  "instances start_state ''svc'' = None \<and>
   (\<exists>m. get_logger ''svc'' start_state = (Inl (KeyError m), start_state)) \<and>
   instances svc_state ''svc'' = Some 0 \<and>
   get_logger ''svc'' svc_state = (Inr 0, svc_state)"
  using get_logger_registered_or_KeyError [of start_state "''svc''"]
    get_logger_registered_or_KeyError [of svc_state "''svc''"]
  by (simp add: start_state_def svc_state_eq)

text \<open>
  C7. \<^verbatim>\<open>set_run_name(run_name)\<close> sets the class-wide run identifier to
  \<^verbatim>\<open>YYYY-MM-DD_HHMMSS_\<close> followed by the run name: the date fields are those of the
  clock reading taken by \<^verbatim>\<open>create_datestamp\<close>, the time fields those of the next
  reading, taken by \<^verbatim>\<open>create_timestamp\<close>. The stamp and its two separators take 18
  characters. The handler objects, and with them the paths of the file handlers that
  are open, the Logger instances, the registry and the file system are unchanged.
\<close>

theorem set_run_name_regenerates:
  "run_id (set_run_name rn s) =
     Some (pad4 (year (clock s (ticks s))) @ ''-'' @ pad2 (month (clock s (ticks s))) @ ''-''
           @ pad2 (day (clock s (ticks s))) @ ''_''
           @ pad2 (hour (clock s (Suc (ticks s)))) @ pad2 (minute (clock s (Suc (ticks s))))
           @ pad2 (second (clock s (Suc (ticks s)))) @ ''_'' @ rn) \<and>
   length (the (run_id (set_run_name rn s))) = 18 + length rn \<and>
   hdlrs (set_run_name rn s) = hdlrs s \<and>
   objs (set_run_name rn s) = objs s \<and>
   fs (set_run_name rn s) = fs s \<and>
   instances (set_run_name rn s) = instances s \<and>
   py_loggers (set_run_name rn s) = py_loggers s"
  by (simp add: set_run_name_def compose_global_run_id_def create_log_datetime_stamp_frame
      strftime_Ymd_def strftime_HMS_def pad2_def pad4_def)

theorem set_run_name_witness:
  "run_id (set_run_name ''exp1'' file_state) = Some ''2025-03-09_140507_exp1'' \<and>
   hdlrs (set_run_name ''exp1'' file_state) = hdlrs file_state"
  using set_run_name_regenerates [of "''exp1''" file_state]
  by (simp add: file_state_eq clock0_def pad2_def pad4_def digit_def)

section \<open>Handlers of one Logger\<close>

text \<open>
  C4. On a Logger that already has a handler under the name, \<^verbatim>\<open>add_console_handler\<close>
  and \<^verbatim>\<open>add_file_handler\<close> return normally and change nothing but the list of
  emitted records, which grows by exactly one \<^verbatim>\<open>WARNING\<close> record sent through the
  Logger's own \<^verbatim>\<open>logging\<close> logger: the handler objects (their identity, level and
  format), the handler mapping and the attached handlers stay as they were.
\<close>

theorem add_handler_taken_name:
  assumes "obj_at s self = Some L" and "handlers L h = Some a"
  shows "add_console_handler self h lvl fmt s =
           (None, s\<lparr>records := records s @ [(logger L, WARNING, already_exists_msg h L)]\<rparr>) \<and>
         add_file_handler self h lvl fmt s =
           (None, s\<lparr>records := records s @ [(logger L, WARNING, already_exists_msg h L)]\<rparr>)"
  using assms
  by (simp add: add_console_handler_def add_file_handler_def handler_exists_def py_log_def)

theorem add_handler_taken_name_witness:
  "obj_at console_state 0 = Some (objs console_state ! 0) \<and>
   handlers (objs console_state ! 0) ''out'' = Some 0 \<and>
   add_console_handler 0 ''out'' DEBUG ''%(message)s'' console_state =
     (None, console_state\<lparr>records :=
        [(''svc'', 30, ''Handler with name out already exists in logger svc'')]\<rparr>) \<and>
   add_file_handler 0 ''out'' DEBUG ''%(message)s'' console_state =
     (None, console_state\<lparr>records :=
        [(''svc'', 30, ''Handler with name out already exists in logger svc'')]\<rparr>) \<and>
   hlevel (hdlrs (snd (add_console_handler 0 ''out'' DEBUG ''%(message)s'' console_state)) ! 0)
     = WARNING"
  using add_handler_taken_name [of console_state 0 "objs console_state ! 0" "''out''" 0
      DEBUG "''%(message)s''"]
  by (simp add: console_state_eq obj_at_def already_exists_msg_def WARNING_def)

text \<open>
  C8. On a handler name present on the Logger, \<^verbatim>\<open>remove_handler\<close> passes the handler
  to \<^verbatim>\<open>removeHandler\<close> of the Logger's \<^verbatim>\<open>logging\<close> logger (which detaches it from
  a duplicate-free handler list) and deletes the name from the handler mapping, and
  \<^verbatim>\<open>set_handler_level\<close> sets the level of that handler object; neither emits a
  record. On an absent name each returns normally and changes nothing but the list of
  emitted records, which grows by one \<^verbatim>\<open>WARNING\<close> record sent through the Logger's
  own \<^verbatim>\<open>logging\<close> logger.
\<close>

theorem remove_and_set_level:
  assumes "obj_at s self = Some L"
  shows "(\<forall>a. handlers L h = Some a \<longrightarrow>
            fst (remove_handler self h s) = None \<and>
            obj_at (snd (remove_handler self h s)) self
              = Some (L\<lparr>handlers := (handlers L)(h := None)\<rparr>) \<and>
            phandlers (py_loggers (snd (remove_handler self h s)) (logger L))
              = remove1 a (phandlers (py_loggers s (logger L))) \<and>
            (distinct (phandlers (py_loggers s (logger L))) \<longrightarrow>
               a \<notin> set (phandlers (py_loggers (snd (remove_handler self h s)) (logger L)))) \<and>
            hdlrs (snd (remove_handler self h s)) = hdlrs s \<and>
            records (snd (remove_handler self h s)) = records s) \<and>
         (\<forall>a. handlers L h = Some a \<longrightarrow>
            set_handler_level self h lvl s
              = (None, s\<lparr>hdlrs := (hdlrs s)[a := (hdlrs s ! a)\<lparr>hlevel := lvl\<rparr>]\<rparr>) \<and>
            (a < length (hdlrs s) \<longrightarrow>
               hlevel (hdlrs (snd (set_handler_level self h lvl s)) ! a) = lvl)) \<and>
         (handlers L h = None \<longrightarrow>
            remove_handler self h s
              = (None, s\<lparr>records := records s @ [(logger L, WARNING, remove_missing_msg h L)]\<rparr>) \<and>
            set_handler_level self h lvl s
              = (None, s\<lparr>records := records s @ [(logger L, WARNING, level_missing_msg h L)]\<rparr>))"
  using assms
  by (auto simp: remove_handler_def set_handler_level_def py_log_def py_removeHandler_def
      put_obj_def obj_at_def Let_def remove1_idem split: if_splits)

theorem remove_and_set_level_witness:
  "obj_at console_state 0 = Some (objs console_state ! 0) \<and>
   handlers (objs console_state ! 0) ''out'' = Some 0 \<and>
   distinct (phandlers (py_loggers console_state ''svc'')) \<and>
   0 < length (hdlrs console_state) \<and>
   fst (remove_handler 0 ''out'' console_state) = None \<and>
   phandlers (py_loggers (snd (remove_handler 0 ''out'' console_state)) ''svc'') = [] \<and>
   hlevel (hdlrs (snd (set_handler_level 0 ''out'' ERROR console_state)) ! 0) = ERROR \<and>
   handlers (objs console_state ! 0) ''nope'' = None \<and>
   remove_handler 0 ''nope'' console_state =
     (None, console_state\<lparr>records :=
        [(''svc'', 30,
          ''Logger.remove_handler() -> Handler nope does not exist in logger svc'')]\<rparr>) \<and>
   set_handler_level 0 ''nope'' ERROR console_state =
     (None, console_state\<lparr>records :=
        [(''svc'', 30,
          ''Logger.set_handler_level() -> Handler nope does not exist in logger svc'')]\<rparr>)"
  using remove_and_set_level [of console_state 0 "objs console_state ! 0" "''out''" ERROR]
    remove_and_set_level [of console_state 0 "objs console_state ! 0" "''nope''" ERROR]
  by (simp add: console_state_eq obj_at_def remove_missing_msg_def level_missing_msg_def
      WARNING_def)

section \<open>File handlers and the directory layout\<close>

lemma obj_at_Some_iff: "obj_at s a = Some L \<longleftrightarrow> a < length (objs s) \<and> objs s ! a = L"
  by (auto simp: obj_at_def)

lemma components_acc_plain:
  "CHR ''/'' \<notin> set s \<Longrightarrow> components_acc cur s = (if cur @ s = [] then [] else [cur @ s])"
  by (induction s arbitrary: cur) auto

lemma os_path_join_plain:
  "CHR ''/'' \<notin> set s \<Longrightarrow> os_path_join p s = (if s = [] then p else p @ [s])"
  by (cases s) (auto simp: os_path_join_def components_def components_acc_plain)

lemma digit_plain: "digit n \<noteq> CHR ''/''"
proof -
  have "n mod 10 < length ''0123456789''" by simp
  then have "digit n \<in> set ''0123456789''"
    unfolding digit_def by (rule nth_mem)
  then show ?thesis by auto
qed

lemma strftime_Ymd_plain:
  "CHR ''/'' \<notin> set (strftime_Ymd d)" "strftime_Ymd d \<noteq> []"
  using digit_plain [symmetric] by (auto simp: strftime_Ymd_def pad2_def pad4_def)

lemma strftime_HMS_plain: "CHR ''/'' \<notin> set (strftime_HMS d)"
  using digit_plain [symmetric] by (auto simp: strftime_HMS_def pad2_def)

lemma path_str_append: "path_str (p @ q) = path_str p @ path_str q"
  by (simp add: path_str_def)

lemma name_error_prefix:
  assumes "prefix q p" and "name_error p = None"
  shows "name_error q = None"
proof -
  from assms(1) obtain zs where p: "p = q @ zs" by (auto simp: prefix_def)
  then have "length (path_str q) \<le> length (path_str p)" "set q \<subseteq> set p"
    by (simp_all add: path_str_append)
  with assms(2) show ?thesis
    by (auto simp: name_error_def split: if_splits)
qed

lemma os_makedirs_clear:
  "name_error p = None \<Longrightarrow> stat fsys p = None \<Longrightarrow>
   (\<forall>q. strict_prefix q p \<longrightarrow> stat fsys q \<noteq> Some File) \<Longrightarrow>
   \<exists>fs'. os_makedirs p fsys = (None, fs') \<and> fs' p = Some Dir \<and>
         (\<forall>q. fs' q = fsys q \<or> (prefix q p \<and> fs' q = Some Dir))"
proof (induction p fsys rule: os_makedirs.induct)
  case (1 p fsys)
  from "1.prems"(2) have p: "p \<noteq> []" "fsys p = None"
    by (auto simp: stat_def split: if_splits)
  then have sp: "strict_prefix (butlast p) p"
    by (metis append_butlast_last_id prefix_snoc prefix_order.order_refl strict_prefix_def
        butlast_snoc not_Cons_self2 self_append_conv)
  then have par_ne: "name_error (butlast p) = None"
    using name_error_prefix "1.prems"(1) by (auto simp: strict_prefix_def)
  show ?case
  proof (cases "os_path_exists fsys (butlast p)")
    case True
    with sp "1.prems"(3) have "stat fsys (butlast p) = Some Dir"
      by (cases "stat fsys (butlast p)"; cases "the (stat fsys (butlast p))")
         (auto simp: os_path_exists_def par_ne)
    with True p "1.prems"(1) have "os_makedirs p fsys = (None, fsys(p \<mapsto> Dir))"
      by (subst os_makedirs.simps) (simp add: os_mkdir_def stat_def)
    then show ?thesis by auto
  next
    case False
    with par_ne have none: "stat fsys (butlast p) = None"
      by (auto simp: os_path_exists_def split: option.splits)
    have "\<forall>q. strict_prefix q (butlast p) \<longrightarrow> stat fsys q \<noteq> Some File"
      using "1.prems"(3) sp by (meson prefix_order.less_trans)
    with "1.IH" p False par_ne none
    obtain fs1 where fs1: "os_makedirs (butlast p) fsys = (None, fs1)"
        "fs1 (butlast p) = Some Dir"
        "\<forall>q. fs1 q = fsys q \<or> (prefix q (butlast p) \<and> fs1 q = Some Dir)"
      by blast
    have "\<not> prefix p (butlast p)"
      using sp by (auto simp: strict_prefix_def)
    with fs1(3) p have p1: "fs1 p = None" by metis
    from none have "butlast p \<noteq> []" by (auto simp: stat_def split: if_splits)
    with fs1(2) have "stat fs1 (butlast p) = Some Dir" by (simp add: stat_def)
    with p1 p "1.prems"(1) have "os_mkdir p fs1 = (None, fs1(p \<mapsto> Dir))"
      by (simp add: os_mkdir_def stat_def)
    with False p fs1(1) have mk: "os_makedirs p fsys = (None, fs1(p \<mapsto> Dir))"
      by (subst os_makedirs.simps) simp
    have "\<forall>q. (fs1(p \<mapsto> Dir)) q = fsys q \<or> (prefix q p \<and> (fs1(p \<mapsto> Dir)) q = Some Dir)"
    proof
      fix q
      show "(fs1(p \<mapsto> Dir)) q = fsys q \<or> (prefix q p \<and> (fs1(p \<mapsto> Dir)) q = Some Dir)"
      proof (cases "q = p")
        case True then show ?thesis by simp
      next
        case ne: False
        from fs1(3) have "fs1 q = fsys q \<or> (prefix q (butlast p) \<and> fs1 q = Some Dir)" ..
        moreover have "prefix q (butlast p) \<Longrightarrow> prefix q p"
          using sp by (auto simp: strict_prefix_def)
        ultimately show ?thesis using ne by auto
      qed
    qed
    with mk show ?thesis by auto
  qed
qed

text \<open>
  Both directory helpers create the directory unless the path exists. When no regular
  file lies on the path, the result is a directory, and the file system differs from
  the old one only by new directories on the path.
\<close>

lemma ensure_dir_clear:
  assumes "name_error p = None" and "\<forall>q. prefix q p \<longrightarrow> stat fsys q \<noteq> Some File"
  shows "\<exists>fs'. (if \<not> os_path_exists fsys p then os_makedirs p fsys else (None, fsys)) = (None, fs')
           \<and> stat fs' p = Some Dir
           \<and> (\<forall>q. fs' q = fsys q \<or> (prefix q p \<and> fs' q = Some Dir))"
proof (cases "stat fsys p")
  case None
  moreover have "\<forall>q. strict_prefix q p \<longrightarrow> stat fsys q \<noteq> Some File"
    using assms(2) by (auto simp: strict_prefix_def)
  ultimately obtain fs' where "os_makedirs p fsys = (None, fs')" "fs' p = Some Dir"
      "\<forall>q. fs' q = fsys q \<or> (prefix q p \<and> fs' q = Some Dir)"
    using os_makedirs_clear [OF assms(1)] by blast
  with None assms(1) show ?thesis
    by (auto simp: os_path_exists_def stat_def)
next
  case (Some e)
  with assms(2) have "stat fsys p = Some Dir" by (cases e) auto
  with assms(1) show ?thesis
    by (auto simp: os_path_exists_def)
qed

lemma create_todays_log_dir_clear:
  assumes obj: "obj_at s self = Some L"
    and d: "d = log_file_defaullt_dir L @ [strftime_Ymd (clock s (ticks s))]"
    and ne: "name_error d = None"
    and clear: "\<forall>q. prefix q d \<longrightarrow> stat (fs s) q \<noteq> Some File"
  shows "\<exists>fs1. create_todays_log_dir self s =
             (Inr d, s\<lparr>ticks := Suc (ticks s),
                       objs := (objs s)[self := L\<lparr>date_dir := Some d\<rparr>], fs := fs1\<rparr>)
           \<and> stat fs1 d = Some Dir
           \<and> (\<forall>q. fs1 q = fs s q \<or> (prefix q d \<and> fs1 q = Some Dir))"
proof -
  have join: "os_path_join (log_file_defaullt_dir L) (strftime_Ymd (clock s (ticks s))) = d"
    by (simp add: d os_path_join_plain strftime_Ymd_plain)
  from ensure_dir_clear [OF ne clear] obtain fs1 where
    e: "(if \<not> os_path_exists (fs s) d then os_makedirs d (fs s) else (None, fs s)) = (None, fs1)"
    and r: "stat fs1 d = Some Dir" "\<forall>q. fs1 q = fs s q \<or> (prefix q d \<and> fs1 q = Some Dir)"
    by blast
  from e obj join have "create_todays_log_dir self s =
      (Inr d, s\<lparr>ticks := Suc (ticks s),
                objs := (objs s)[self := L\<lparr>date_dir := Some d\<rparr>], fs := fs1\<rparr>)"
    by (cases "os_path_exists (fs s) d")
       (simp_all add: create_todays_log_dir_def create_datestamp_def datetime_now_def
         put_obj_def Let_def)
  with r show ?thesis by blast
qed

lemma create_run_id_dir_clear:
  assumes obj: "obj_at s self = Some L"
    and rid: "run_id s = Some rid" "CHR ''/'' \<notin> set rid"
    and d: "d = log_file_defaullt_dir L @ [strftime_Ymd (clock s (ticks s))]"
    and r: "r = os_path_join d rid"
    and ne: "name_error r = None"
    and clear: "\<forall>q. prefix q r \<longrightarrow> stat (fs s) q \<noteq> Some File"
  shows "\<exists>fs2. create_run_id_dir self s =
             (Inr r, s\<lparr>ticks := Suc (ticks s),
                       objs := (objs s)[self := L\<lparr>date_dir := Some d, run_dir := Some r\<rparr>],
                       fs := fs2\<rparr>)
           \<and> stat fs2 d = Some Dir \<and> stat fs2 r = Some Dir
           \<and> (\<forall>q. fs2 q = fs s q \<or> (prefix q r \<and> fs2 q = Some Dir))"
proof -
  have dr: "prefix d r"
    using r rid(2) by (simp add: os_path_join_plain)
  then have ne_d: "name_error d = None"
    using ne by (rule name_error_prefix)
  have clear_d: "\<forall>q. prefix q d \<longrightarrow> stat (fs s) q \<noteq> Some File"
    using clear dr by (meson prefix_order.trans)
  from create_todays_log_dir_clear [OF obj d ne_d clear_d] obtain fs1 where
    today: "create_todays_log_dir self s =
       (Inr d, s\<lparr>ticks := Suc (ticks s),
                 objs := (objs s)[self := L\<lparr>date_dir := Some d\<rparr>], fs := fs1\<rparr>)"
    and f1: "stat fs1 d = Some Dir" "\<forall>q. fs1 q = fs s q \<or> (prefix q d \<and> fs1 q = Some Dir)"
    by blast
  let ?s1 = "s\<lparr>ticks := Suc (ticks s),
               objs := (objs s)[self := L\<lparr>date_dir := Some d\<rparr>], fs := fs1\<rparr>"
  have dne: "d \<noteq> []" using d by simp
  have clear1: "\<forall>q. prefix q r \<longrightarrow> stat fs1 q \<noteq> Some File"
  proof (intro allI impI)
    fix q assume q: "prefix q r"
    from f1(2) have "fs1 q = fs s q \<or> (prefix q d \<and> fs1 q = Some Dir)" ..
    with clear q show "stat fs1 q \<noteq> Some File"
      by (auto simp: stat_def)
  qed
  from ensure_dir_clear [OF ne clear1] obtain fs2 where
    e: "(if \<not> os_path_exists fs1 r then os_makedirs r fs1 else (None, fs1)) = (None, fs2)"
    and f2: "stat fs2 r = Some Dir" "\<forall>q. fs2 q = fs1 q \<or> (prefix q r \<and> fs2 q = Some Dir)"
    by blast
  from obj have self: "self < length (objs s)"
    by (simp add: obj_at_Some_iff)
  then have obj1: "obj_at ?s1 self = Some (L\<lparr>date_dir := Some d\<rparr>)"
    by (simp add: obj_at_Some_iff)
  from e today obj1 rid(1) r self have "create_run_id_dir self s =
      (Inr r, s\<lparr>ticks := Suc (ticks s),
                objs := (objs s)[self := L\<lparr>date_dir := Some d, run_dir := Some r\<rparr>],
                fs := fs2\<rparr>)"
    by (cases "os_path_exists fs1 r")
       (simp_all add: create_run_id_dir_def get_run_id_def put_obj_def Let_def)
  moreover have "stat fs2 d = Some Dir"
  proof -
    from f2(2) have "fs2 d = fs1 d \<or> (prefix d r \<and> fs2 d = Some Dir)" ..
    with f1(1) dne show ?thesis by (auto simp: stat_def)
  qed
  moreover have "\<forall>q. fs2 q = fs s q \<or> (prefix q r \<and> fs2 q = Some Dir)"
  proof
    fix q
    from f2(2) have a: "fs2 q = fs1 q \<or> (prefix q r \<and> fs2 q = Some Dir)" ..
    from f1(2) have b: "fs1 q = fs s q \<or> (prefix q d \<and> fs1 q = Some Dir)" ..
    have "prefix q d \<Longrightarrow> prefix q r" using dr by (rule prefix_order.trans [rotated])
    with a b show "fs2 q = fs s q \<or> (prefix q r \<and> fs2 q = Some Dir)" by auto
  qed
  ultimately show ?thesis using f2(1) by blast
qed

lemma add_file_handler_clear:
  assumes obj: "obj_at s self = Some L"
    and fresh: "handlers L h = None"
    and rid: "run_id s = Some rid" "CHR ''/'' \<notin> set rid"
    and hn: "CHR ''/'' \<notin> set h"
    and d: "d = log_file_defaullt_dir L @ [strftime_Ymd (clock s (ticks s))]"
    and r: "r = os_path_join d rid"
    and f: "f = r @ [rid @ ''_'' @ h @ ''.log'']"
    and ne: "name_error f = None"
    and clear: "\<forall>q. strict_prefix q f \<longrightarrow> stat (fs s) q \<noteq> Some File"
    and notdir: "fs s f \<noteq> Some Dir"
  shows "\<exists>fs3. add_file_handler self h lvl fmt s =
           (if valid_format s fmt
            then (None,
                  py_log (logger L) DEBUG (file_added_msg h L f)
                    (py_addHandler (logger L) (length (hdlrs s))
                       (s\<lparr>ticks := Suc (ticks s),
                          objs := (objs s)[self := L\<lparr>date_dir := Some d, run_dir := Some r,
                                     handlers := (handlers L)(h \<mapsto> length (hdlrs s))\<rparr>],
                          fs := fs3,
                          hdlrs := hdlrs s @
                            [\<lparr>sink = FileStream f ''a'' ''utf-8'', hlevel = lvl,
                              formatter = Some fmt, hclosed = False\<rparr>]\<rparr>)))
            else (Some ValueError,
                  s\<lparr>ticks := Suc (ticks s),
                    objs := (objs s)[self := L\<lparr>date_dir := Some d, run_dir := Some r\<rparr>],
                    fs := fs3,
                    hdlrs := hdlrs s @
                      [\<lparr>sink = FileStream f ''a'' ''utf-8'', hlevel = 0,
                        formatter = None, hclosed = False\<rparr>]\<rparr>))
         \<and> stat fs3 d = Some Dir \<and> stat fs3 r = Some Dir \<and> fs3 f = Some File
         \<and> (\<forall>q. fs3 q = fs s q \<or> (prefix q f \<and> fs3 q \<noteq> None))"
proof -
  have rf: "strict_prefix r f" "butlast f = r" "f \<noteq> []" "\<not> prefix f r"
    using f by (auto simp: strict_prefix_def)
  have dne: "d \<noteq> []" using d by simp
  have dr: "prefix d r" "r \<noteq> []"
    using r rid(2) dne by (simp_all add: os_path_join_plain)
  have df: "d \<noteq> f"
    using dr rf by auto
  have ne_r: "name_error r = None"
    using rf(1) ne name_error_prefix by (auto simp: strict_prefix_def)
  have clear_r: "\<forall>q. prefix q r \<longrightarrow> stat (fs s) q \<noteq> Some File"
    using clear rf(1) by (meson prefix_order.le_less_trans)
  from create_run_id_dir_clear [OF obj rid d r ne_r clear_r] obtain fs2 where
    run: "create_run_id_dir self s =
       (Inr r, s\<lparr>ticks := Suc (ticks s),
                 objs := (objs s)[self := L\<lparr>date_dir := Some d, run_dir := Some r\<rparr>],
                 fs := fs2\<rparr>)"
    and f2: "stat fs2 d = Some Dir" "stat fs2 r = Some Dir"
      "\<forall>q. fs2 q = fs s q \<or> (prefix q r \<and> fs2 q = Some Dir)"
    by blast
  let ?s2 = "s\<lparr>ticks := Suc (ticks s),
               objs := (objs s)[self := L\<lparr>date_dir := Some d, run_dir := Some r\<rparr>],
               fs := fs2\<rparr>"
  let ?fs3 = "fs2(f \<mapsto> File)"
  have join: "os_path_join r (rid @ ''_'' @ h @ ''.log'') = f"
    using rid(2) hn f by (simp add: os_path_join_plain)
  from f2(3) have "fs2 f = fs s f \<or> (prefix f r \<and> fs2 f = Some Dir)" ..
  with rf(4) have same: "fs2 f = fs s f" by simp
  have opened: "open_append f fs2 = (None, ?fs3)"
  proof (cases "fs s f")
    case None
    with same f2(2) rf ne show ?thesis
      by (simp add: open_append_def stat_def)
  next
    case (Some e)
    with notdir have "fs s f = Some File" by (cases e) auto
    with same have "fs2 f = Some File" by simp
    moreover from this have "?fs3 = fs2" by (rule fun_upd_idem)
    ultimately show ?thesis using rf ne
      by (simp add: open_append_def stat_def)
  qed
  then have handler: "FileHandler f ''a'' ''utf-8'' ?s2 =
      (Inr (length (hdlrs s)),
       ?s2\<lparr>fs := ?fs3,
           hdlrs := hdlrs s @
             [\<lparr>sink = FileStream f ''a'' ''utf-8'', hlevel = 0, formatter = None,
               hclosed = False\<rparr>]\<rparr>)"
    by (simp add: FileHandler_def)
  from obj have self: "self < length (objs s)"
    by (simp add: obj_at_Some_iff)
  have call: "add_file_handler self h lvl fmt s =
           (if valid_format s fmt
            then (None,
                  py_log (logger L) DEBUG (file_added_msg h L f)
                    (py_addHandler (logger L) (length (hdlrs s))
                       (s\<lparr>ticks := Suc (ticks s),
                          objs := (objs s)[self := L\<lparr>date_dir := Some d, run_dir := Some r,
                                     handlers := (handlers L)(h \<mapsto> length (hdlrs s))\<rparr>],
                          fs := ?fs3,
                          hdlrs := hdlrs s @
                            [\<lparr>sink = FileStream f ''a'' ''utf-8'', hlevel = lvl,
                              formatter = Some fmt, hclosed = False\<rparr>]\<rparr>)))
            else (Some ValueError,
                  s\<lparr>ticks := Suc (ticks s),
                    objs := (objs s)[self := L\<lparr>date_dir := Some d, run_dir := Some r\<rparr>],
                    fs := ?fs3,
                    hdlrs := hdlrs s @
                      [\<lparr>sink = FileStream f ''a'' ''utf-8'', hlevel = 0,
                        formatter = None, hclosed = False\<rparr>]\<rparr>))"
    using obj fresh rid(1) run join handler self
    by (simp add: add_file_handler_def handler_exists_def get_run_id_def Formatter_def
        obj_at_def put_obj_def file_added_msg_def py_addHandler_def py_log_def Let_def)
  have "stat ?fs3 d = Some Dir" "stat ?fs3 r = Some Dir"
    using f2(1,2) df rf dne dr by (auto simp: stat_def)
  moreover have "\<forall>q. ?fs3 q = fs s q \<or> (prefix q f \<and> ?fs3 q \<noteq> None)"
  proof
    fix q
    from f2(3) have "fs2 q = fs s q \<or> (prefix q r \<and> fs2 q = Some Dir)" ..
    moreover have "prefix q r \<Longrightarrow> prefix q f"
      using rf(1) by (auto simp: strict_prefix_def)
    ultimately show "?fs3 q = fs s q \<or> (prefix q f \<and> ?fs3 q \<noteq> None)"
      by (cases "q = f") auto
  qed
  ultimately show ?thesis using call by (intro exI [of _ ?fs3]) simp
qed

lemma set_run_name_eq:
  "set_run_name rn s =
     s\<lparr>ticks := Suc (Suc (ticks s)),
       run_id := Some (strftime_Ymd (clock s (ticks s)) @ ''_''
                       @ strftime_HMS (clock s (Suc (ticks s))) @ ''_'' @ rn)\<rparr>"
  by (simp add: set_run_name_def compose_global_run_id_def create_log_datetime_stamp_frame)

lemma add_file_handler_fields:
  assumes "obj_at s self = Some L"
    and "handlers L h = None"
    and "run_id s = Some rid"
    and "CHR ''/'' \<notin> set rid" and "CHR ''/'' \<notin> set h"
    and "d = log_file_defaullt_dir L @ [strftime_Ymd (clock s (ticks s))]"
    and "r = d @ (if rid = [] then [] else [rid])"
    and "f = r @ [rid @ ''_'' @ h @ ''.log'']"
    and "name_error f = None"
    and "\<forall>q. strict_prefix q f \<longrightarrow> stat (fs s) q \<noteq> Some File"
    and "fs s f \<noteq> Some Dir"
  shows "(\<exists>H. hdlrs (snd (add_file_handler self h lvl fmt s)) = hdlrs s @ [H] \<and>
              sink H = FileStream f ''a'' ''utf-8'') \<and>
         fs (snd (add_file_handler self h lvl fmt s)) d = Some Dir \<and>
         fs (snd (add_file_handler self h lvl fmt s)) r = Some Dir \<and>
         fs (snd (add_file_handler self h lvl fmt s)) f = Some File \<and>
         (\<forall>q. \<not> prefix q f \<longrightarrow> fs (snd (add_file_handler self h lvl fmt s)) q = fs s q) \<and>
         (valid_format s fmt \<longrightarrow>
            fst (add_file_handler self h lvl fmt s) = None \<and>
            obj_at (snd (add_file_handler self h lvl fmt s)) self =
              Some (L\<lparr>date_dir := Some d, run_dir := Some r,
                      handlers := (handlers L)(h \<mapsto> length (hdlrs s))\<rparr>) \<and>
            hdlrs (snd (add_file_handler self h lvl fmt s)) =
              hdlrs s @ [\<lparr>sink = FileStream f ''a'' ''utf-8'', hlevel = lvl,
                           formatter = Some fmt, hclosed = False\<rparr>]) \<and>
         (\<not> valid_format s fmt \<longrightarrow>
            fst (add_file_handler self h lvl fmt s) = Some ValueError)"
proof -
  have r: "r = os_path_join d rid"
    using assms(4,7) by (simp add: os_path_join_plain)
  from add_file_handler_clear [OF assms(1-5) assms(6) r assms(8-11), of lvl fmt]
  obtain fs3 where call: "add_file_handler self h lvl fmt s =
           (if valid_format s fmt
            then (None,
                  py_log (logger L) DEBUG (file_added_msg h L f)
                    (py_addHandler (logger L) (length (hdlrs s))
                       (s\<lparr>ticks := Suc (ticks s),
                          objs := (objs s)[self := L\<lparr>date_dir := Some d, run_dir := Some r,
                                     handlers := (handlers L)(h \<mapsto> length (hdlrs s))\<rparr>],
                          fs := fs3,
                          hdlrs := hdlrs s @
                            [\<lparr>sink = FileStream f ''a'' ''utf-8'', hlevel = lvl,
                              formatter = Some fmt, hclosed = False\<rparr>]\<rparr>)))
            else (Some ValueError,
                  s\<lparr>ticks := Suc (ticks s),
                    objs := (objs s)[self := L\<lparr>date_dir := Some d, run_dir := Some r\<rparr>],
                    fs := fs3,
                    hdlrs := hdlrs s @
                      [\<lparr>sink = FileStream f ''a'' ''utf-8'', hlevel = 0,
                        formatter = None, hclosed = False\<rparr>]\<rparr>))"
    and fs3: "stat fs3 d = Some Dir" "stat fs3 r = Some Dir" "fs3 f = Some File"
      "\<forall>q. fs3 q = fs s q \<or> (prefix q f \<and> fs3 q \<noteq> None)"
    by blast
  have ne: "d \<noteq> []" "r \<noteq> []"
    using assms(6,7) by simp_all
  with fs3 have dirs: "fs3 d = Some Dir" "fs3 r = Some Dir"
    by (simp_all add: stat_def)
  have frame: "\<forall>q. \<not> prefix q f \<longrightarrow> fs3 q = fs s q"
    using fs3(4) by blast
  from assms(1) have self: "self < length (objs s)"
    by (simp add: obj_at_Some_iff)
  show ?thesis
  proof (cases "valid_format s fmt")
    case True
    with call dirs fs3(3) frame self show ?thesis
      by (simp add: py_log_def py_addHandler_def obj_at_Some_iff Let_def)
  next
    case False
    with call dirs fs3(3) frame show ?thesis
      by simp
  qed
qed

text \<open>
  C5, as the code has it. Take a Logger, a handler name \<open>h\<close> that is not taken and the
  current run identifier \<open>rid\<close>, neither holding the separator \<^verbatim>\<open>/\<close>. Let the date
  directory \<open>d\<close> be the Logger's log directory extended by today's date stamp, the run
  directory \<open>r\<close> be \<open>d\<close> extended by \<open>rid\<close>, and the file \<open>f\<close> be \<open>r\<close> extended by
  \<^verbatim>\<open><rid>_<h>.log\<close>. Suppose the system calls accept \<open>f\<close> (no null character, no
  component over \<^verbatim>\<open>NAME_MAX\<close>, the path within \<^verbatim>\<open>PATH_MAX\<close>), no regular file
  lies on the way to \<open>f\<close>, and \<open>f\<close> is not a directory. Then \<^verbatim>\<open>add_file_handler\<close>
  opens \<open>f\<close>: a new handler object writes to \<open>f\<close> in mode \<^verbatim>\<open>a\<close> with encoding
  \<^verbatim>\<open>utf-8\<close>; \<open>d\<close> and \<open>r\<close> are directories afterwards, whether they were missing or
  already there, \<open>f\<close> is a regular file, and nothing outside the path to \<open>f\<close> has
  changed. With a format that \<^verbatim>\<open>logging.Formatter\<close> accepts the call returns
  normally and the handler, with the level and format given, is stored under \<open>h\<close>;
  with another format the call raises \<^verbatim>\<open>ValueError\<close> after the file was opened.
\<close>

theorem add_file_handler_path:
  assumes "obj_at s self = Some L"
    and "handlers L h = None"
    and "run_id s = Some rid"
    and "CHR ''/'' \<notin> set rid" and "CHR ''/'' \<notin> set h"
    and "d = log_file_defaullt_dir L @ [strftime_Ymd (clock s (ticks s))]"
    and "r = d @ (if rid = [] then [] else [rid])"
    and "f = r @ [rid @ ''_'' @ h @ ''.log'']"
    and "name_error f = None"
    and "\<forall>q. strict_prefix q f \<longrightarrow> stat (fs s) q \<noteq> Some File"
    and "fs s f \<noteq> Some Dir"
  shows "(\<exists>H. hdlrs (snd (add_file_handler self h lvl fmt s)) = hdlrs s @ [H] \<and>
              sink H = FileStream f ''a'' ''utf-8'') \<and>
         fs (snd (add_file_handler self h lvl fmt s)) d = Some Dir \<and>
         fs (snd (add_file_handler self h lvl fmt s)) r = Some Dir \<and>
         fs (snd (add_file_handler self h lvl fmt s)) f = Some File \<and>
         (\<forall>q. \<not> prefix q f \<longrightarrow> fs (snd (add_file_handler self h lvl fmt s)) q = fs s q) \<and>
         (valid_format s fmt \<longrightarrow>
            fst (add_file_handler self h lvl fmt s) = None \<and>
            obj_at (snd (add_file_handler self h lvl fmt s)) self =
              Some (L\<lparr>date_dir := Some d, run_dir := Some r,
                      handlers := (handlers L)(h \<mapsto> length (hdlrs s))\<rparr>) \<and>
            hdlrs (snd (add_file_handler self h lvl fmt s)) =
              hdlrs s @ [\<lparr>sink = FileStream f ''a'' ''utf-8'', hlevel = lvl,
                           formatter = Some fmt, hclosed = False\<rparr>]) \<and>
         (\<not> valid_format s fmt \<longrightarrow>
            fst (add_file_handler self h lvl fmt s) = Some ValueError)"
  using assms by (rule add_file_handler_fields)

theorem add_file_handler_path_witness:
  "obj_at svc_state 0 = Some (objs svc_state ! 0) \<and>
   handlers (objs svc_state ! 0) ''main'' = None \<and>
   run_id svc_state = Some ''2025-03-09_140507'' \<and>
   fs svc_state [''srv'', ''logs'', ''2025-03-09''] = None \<and>
   valid_format svc_state FORMAT_BASIC \<and>
   fst (add_file_handler 0 ''main'' DEBUG FORMAT_BASIC svc_state) = None \<and>
   hdlrs (snd (add_file_handler 0 ''main'' DEBUG FORMAT_BASIC svc_state)) =
     [\<lparr>sink = FileStream [''srv'', ''logs'', ''2025-03-09'', ''2025-03-09_140507'',
                          ''2025-03-09_140507_main.log''] ''a'' ''utf-8'',
       hlevel = DEBUG, formatter = Some FORMAT_BASIC, hclosed = False\<rparr>] \<and>
   fs (snd (add_file_handler 0 ''main'' DEBUG FORMAT_BASIC svc_state))
      [''srv'', ''logs'', ''2025-03-09''] = Some Dir \<and>
   fs (snd (add_file_handler 0 ''main'' DEBUG FORMAT_BASIC svc_state))
      [''srv'', ''logs'', ''2025-03-09'', ''2025-03-09_140507''] = Some Dir \<and>
   fs (snd (add_file_handler 0 ''main'' DEBUG FORMAT_BASIC svc_state))
      [''srv'', ''logs'', ''2025-03-09'', ''2025-03-09_140507'', ''2025-03-09_140507_main.log'']
     = Some File \<and>
   \<not> valid_format svc_state ''plain'' \<and>
   fst (add_file_handler 0 ''main'' DEBUG ''plain'' svc_state) = Some ValueError \<and>
   fs (snd (add_file_handler 0 ''main'' DEBUG ''plain'' svc_state))
      [''srv'', ''logs'', ''2025-03-09'', ''2025-03-09_140507'', ''2025-03-09_140507_main.log'']
     = Some File \<and>
   fs file_state [''srv'', ''logs'', ''2025-03-09''] = Some Dir \<and>
   fs file_state [''srv'', ''logs'', ''2025-03-09'', ''2025-03-09_140507''] = Some Dir \<and>
   fst (add_file_handler 0 ''audit'' INFO FORMAT_BASIC file_state) = None \<and>
   fs (snd (add_file_handler 0 ''audit'' INFO FORMAT_BASIC file_state))
      [''srv'', ''logs'', ''2025-03-09'', ''2025-03-09_140507'', ''2025-03-09_140507_audit.log'']
     = Some File"
proof -
  let ?d = "[''srv'', ''logs'', ''2025-03-09'']"
  let ?r = "[''srv'', ''logs'', ''2025-03-09'', ''2025-03-09_140507'']"
  let ?f = "[''srv'', ''logs'', ''2025-03-09'', ''2025-03-09_140507'',
             ''2025-03-09_140507_main.log'']"
  let ?g = "[''srv'', ''logs'', ''2025-03-09'', ''2025-03-09_140507'',
             ''2025-03-09_140507_audit.log'']"
  have obj: "obj_at svc_state 0 = Some (objs svc_state ! 0)"
    by (simp add: svc_state_eq obj_at_def)
  have fresh: "handlers (objs svc_state ! 0) ''main'' = None"
    by (simp add: svc_state_eq)
  have rid: "run_id svc_state = Some ''2025-03-09_140507''"
    by (simp add: svc_state_eq)
  have d: "?d = log_file_defaullt_dir (objs svc_state ! 0)
                  @ [strftime_Ymd (clock svc_state (ticks svc_state))]"
    by (simp add: svc_state_eq clock0_def strftime_Ymd_def pad2_def pad4_def digit_def)
  have r: "?r = ?d @ (if ''2025-03-09_140507'' = [] then [] else [''2025-03-09_140507''])"
    by simp
  have f: "?f = ?r @ [''2025-03-09_140507'' @ ''_'' @ ''main'' @ ''.log'']"
    by simp
  have ne: "name_error ?f = None"
    by (simp add: name_error_def path_str_def NAME_MAX_def PATH_MAX_def)
  have clear: "\<forall>q. strict_prefix q ?f \<longrightarrow> stat (fs svc_state) q \<noteq> Some File"
    by (simp add: svc_state_eq stat_def)
  have notdir: "fs svc_state ?f \<noteq> Some Dir"
    by (simp add: svc_state_eq)
  have absent: "fs svc_state ?d = None"
    by (simp add: svc_state_eq)
  have ok: "valid_format svc_state FORMAT_BASIC" and bad: "\<not> valid_format svc_state ''plain''"
    by (simp_all add: svc_state_eq FORMAT_BASIC_def)
  note first = add_file_handler_path [OF obj fresh rid _ _ d r f ne clear notdir, of DEBUG]
  have one: "fst (add_file_handler 0 ''main'' DEBUG FORMAT_BASIC svc_state) = None \<and>
     hdlrs (snd (add_file_handler 0 ''main'' DEBUG FORMAT_BASIC svc_state)) =
       [\<lparr>sink = FileStream ?f ''a'' ''utf-8'', hlevel = DEBUG, formatter = Some FORMAT_BASIC,
         hclosed = False\<rparr>] \<and>
     fs (snd (add_file_handler 0 ''main'' DEBUG FORMAT_BASIC svc_state)) ?d = Some Dir \<and>
     fs (snd (add_file_handler 0 ''main'' DEBUG FORMAT_BASIC svc_state)) ?r = Some Dir \<and>
     fs (snd (add_file_handler 0 ''main'' DEBUG FORMAT_BASIC svc_state)) ?f = Some File"
    using first [of FORMAT_BASIC] ok by (simp add: svc_state_eq)
  have two: "fst (add_file_handler 0 ''main'' DEBUG ''plain'' svc_state) = Some ValueError \<and>
     fs (snd (add_file_handler 0 ''main'' DEBUG ''plain'' svc_state)) ?f = Some File"
    using first [of "''plain''"] bad by simp
  have obj2: "obj_at file_state 0 = Some (objs file_state ! 0)"
    by (simp add: file_state_eq obj_at_def)
  have fresh2: "handlers (objs file_state ! 0) ''audit'' = None"
    by (simp add: file_state_eq)
  have rid2: "run_id file_state = Some ''2025-03-09_140507''"
    by (simp add: file_state_eq)
  have d2: "?d = log_file_defaullt_dir (objs file_state ! 0)
                  @ [strftime_Ymd (clock file_state (ticks file_state))]"
    by (simp add: file_state_eq clock0_def strftime_Ymd_def pad2_def pad4_def digit_def)
  have g: "?g = ?r @ [''2025-03-09_140507'' @ ''_'' @ ''audit'' @ ''.log'']"
    by simp
  have ne2: "name_error ?g = None"
    by (simp add: name_error_def path_str_def NAME_MAX_def PATH_MAX_def)
  have clear2: "\<forall>q. strict_prefix q ?g \<longrightarrow> stat (fs file_state) q \<noteq> Some File"
    by (auto simp: file_state_eq stat_def)
  have notdir2: "fs file_state ?g \<noteq> Some Dir"
    by (simp add: file_state_eq)
  have present: "fs file_state ?d = Some Dir" "fs file_state ?r = Some Dir"
    by (simp_all add: file_state_eq)
  have ok2: "valid_format file_state FORMAT_BASIC"
    by (simp add: file_state_eq FORMAT_BASIC_def)
  have three: "fst (add_file_handler 0 ''audit'' INFO FORMAT_BASIC file_state) = None \<and>
     fs (snd (add_file_handler 0 ''audit'' INFO FORMAT_BASIC file_state)) ?g = Some File"
    using add_file_handler_path [OF obj2 fresh2 rid2 _ _ d2 r g ne2 clear2 notdir2,
        of INFO FORMAT_BASIC] ok2
    by simp
  from obj fresh rid absent ok bad one two present three show ?thesis by blast
qed

text \<open>
  The claim as stated, for every Logger and every fresh handler name, fails in each of
  the following runs; every one ends in an exception and adds no handler.
  \<^item> The handler name \<^verbatim>\<open>a/b\<close>: the file would lie in the directory
    \<^verbatim>\<open><run_id>_a\<close>, which nothing creates (\<^verbatim>\<open>FileNotFoundError\<close>).
  \<^item> A handler name with a null character (\<^verbatim>\<open>ValueError\<close>).
  \<^item> A handler name of 300 characters (\<^verbatim>\<open>OSError\<close>, file name too long).
  \<^item> A run name \<^verbatim>\<open>x/y\<close>: the run directory is made two levels deep and the file
    is looked for in a third (\<^verbatim>\<open>FileNotFoundError\<close>).
  \<^item> A Logger whose log directory is a regular file (\<^verbatim>\<open>NotADirectoryError\<close>).
  \<^item> A directory in the place of the log file (\<^verbatim>\<open>IsADirectoryError\<close>).
\<close>

lemmas afh_defs = add_file_handler_def create_run_id_dir_def
      create_todays_log_dir_def get_run_id_def FileHandler_def open_append_def
      handler_exists_def

lemma cex_separator:
  "handlers (objs svc_state ! 0) ''a/b'' = None \<and>
   fst (add_file_handler 0 ''a/b'' DEBUG FORMAT_BASIC svc_state) = Some FileNotFoundError \<and>
   hdlrs (snd (add_file_handler 0 ''a/b'' DEBUG FORMAT_BASIC svc_state)) = []"
  by (simp add: svc_state_eq afh_defs eval_defs)

lemma cex_nul:
  "handlers (objs svc_state ! 0) [CHR 0x00] = None \<and>
   fst (add_file_handler 0 [CHR 0x00] DEBUG FORMAT_BASIC svc_state) = Some ValueError \<and>
   hdlrs (snd (add_file_handler 0 [CHR 0x00] DEBUG FORMAT_BASIC svc_state)) = []"
  by (simp add: svc_state_eq afh_defs eval_defs)

lemma cex_run_name:
  "handlers (objs (set_run_name ''x/y'' svc_state) ! 0) ''main'' = None \<and>
   fst (add_file_handler 0 ''main'' DEBUG FORMAT_BASIC (set_run_name ''x/y'' svc_state))
     = Some FileNotFoundError \<and>
   hdlrs (snd (add_file_handler 0 ''main'' DEBUG FORMAT_BASIC (set_run_name ''x/y'' svc_state))) = []"
  by (simp add: svc_state_eq set_run_name_def compose_global_run_id_def afh_defs eval_defs)

lemma blocked_run:
  "fst (Logger_call ''b'' ''logs/2025-03-09/2025-03-09_140507/2025-03-09_140507_main.log''
            file_state) = Inr 1"
  "handlers (objs blocked_state ! 1) ''x'' = None"
  "fst (add_file_handler 1 ''x'' DEBUG FORMAT_BASIC blocked_state) = Some NotADirectoryError"
  "hdlrs (snd (add_file_handler 1 ''x'' DEBUG FORMAT_BASIC blocked_state)) = hdlrs file_state"
  by (simp_all add: blocked_state_def file_state_eq afh_defs eval_defs)

lemma taken_run:
  "fst (Logger_call ''c'' ''logs/2025-03-09/2025-03-09_140507/2025-03-09_140507_x.log''
            svc_state) = Inr 1"
  "handlers (objs taken_state ! 0) ''x'' = None"
  "fst (add_file_handler 0 ''x'' DEBUG FORMAT_BASIC taken_state) = Some IsADirectoryError"
  "hdlrs (snd (add_file_handler 0 ''x'' DEBUG FORMAT_BASIC taken_state)) = []"
  by (simp_all add: taken_state_def svc_state_eq afh_defs eval_defs)

lemma cex_long:
  "handlers (objs svc_state ! 0) (replicate 300 (CHR ''x'')) = None \<and>
   fst (add_file_handler 0 (replicate 300 (CHR ''x'')) DEBUG FORMAT_BASIC svc_state)
     = Some OSError_ENAMETOOLONG \<and>
   hdlrs (snd (add_file_handler 0 (replicate 300 (CHR ''x'')) DEBUG FORMAT_BASIC svc_state)) = []"
  by (simp add: svc_state_eq afh_defs os_path_join_plain
      create_datestamp_def datetime_now_def obj_at_def put_obj_def os_path_exists_def
      stat_def os_makedirs.simps os_mkdir_def name_error_def path_str_def NAME_MAX_def
      PATH_MAX_def clock0_def strftime_Ymd_def pad2_def pad4_def digit_def Let_def)

theorem add_file_handler_path_counterexample:
  "(handlers (objs svc_state ! 0) ''a/b'' = None \<and>
    fst (add_file_handler 0 ''a/b'' DEBUG FORMAT_BASIC svc_state) = Some FileNotFoundError \<and>
    hdlrs (snd (add_file_handler 0 ''a/b'' DEBUG FORMAT_BASIC svc_state)) = []) \<and>
   (handlers (objs svc_state ! 0) [CHR 0x00] = None \<and>
    fst (add_file_handler 0 [CHR 0x00] DEBUG FORMAT_BASIC svc_state) = Some ValueError \<and>
    hdlrs (snd (add_file_handler 0 [CHR 0x00] DEBUG FORMAT_BASIC svc_state)) = []) \<and>
   (handlers (objs svc_state ! 0) (replicate 300 (CHR ''x'')) = None \<and>
    fst (add_file_handler 0 (replicate 300 (CHR ''x'')) DEBUG FORMAT_BASIC svc_state)
      = Some OSError_ENAMETOOLONG \<and>
    hdlrs (snd (add_file_handler 0 (replicate 300 (CHR ''x'')) DEBUG FORMAT_BASIC svc_state)) = []) \<and>
   (handlers (objs (set_run_name ''x/y'' svc_state) ! 0) ''main'' = None \<and>
    fst (add_file_handler 0 ''main'' DEBUG FORMAT_BASIC (set_run_name ''x/y'' svc_state))
      = Some FileNotFoundError \<and>
    hdlrs (snd (add_file_handler 0 ''main'' DEBUG FORMAT_BASIC (set_run_name ''x/y'' svc_state)))
      = []) \<and>
   (handlers (objs blocked_state ! 1) ''x'' = None \<and>
    fst (add_file_handler 1 ''x'' DEBUG FORMAT_BASIC blocked_state) = Some NotADirectoryError \<and>
    hdlrs (snd (add_file_handler 1 ''x'' DEBUG FORMAT_BASIC blocked_state)) = hdlrs file_state) \<and>
   (handlers (objs taken_state ! 0) ''x'' = None \<and>
    fst (add_file_handler 0 ''x'' DEBUG FORMAT_BASIC taken_state) = Some IsADirectoryError \<and>
    hdlrs (snd (add_file_handler 0 ''x'' DEBUG FORMAT_BASIC taken_state)) = [])"
  using cex_separator cex_nul cex_long cex_run_name blocked_run(2-4) taken_run(2-4)
  by blast

text \<open>
  C10. The run identifier is one class-wide value. After \<^verbatim>\<open>set_run_name\<close>, a Logger
  that existed before the call builds the path of a file handler it adds from the new
  identifier: under the conditions of C5 on the names and the file system, the new
  handler object writes to
  \<^verbatim>\<open><log directory>/<date>/<new id>/<new id>_<handler_name>.log\<close>, and with an
  accepted format the call returns normally, the handler is stored under its name and
  the Logger's \<^verbatim>\<open>run_dir\<close> is the directory of the new identifier.
\<close>

theorem set_run_name_reaches_existing_loggers:
  assumes "obj_at s self = Some L"
    and "handlers L h = None"
    and "CHR ''/'' \<notin> set rn" and "CHR ''/'' \<notin> set h"
    and "rid = strftime_Ymd (clock s (ticks s)) @ ''_''
               @ strftime_HMS (clock s (Suc (ticks s))) @ ''_'' @ rn"
    and "d = log_file_defaullt_dir L @ [strftime_Ymd (clock s (Suc (Suc (ticks s))))]"
    and "f = d @ [rid, rid @ ''_'' @ h @ ''.log'']"
    and "name_error f = None"
    and "\<forall>q. strict_prefix q f \<longrightarrow> stat (fs s) q \<noteq> Some File"
    and "fs s f \<noteq> Some Dir"
  shows "run_id (set_run_name rn s) = Some rid \<and>
         (\<exists>H. hdlrs (snd (add_file_handler self h lvl fmt (set_run_name rn s))) = hdlrs s @ [H] \<and>
              sink H = FileStream f ''a'' ''utf-8'') \<and>
         (valid_format s fmt \<longrightarrow>
            fst (add_file_handler self h lvl fmt (set_run_name rn s)) = None \<and>
            (\<exists>L'. obj_at (snd (add_file_handler self h lvl fmt (set_run_name rn s))) self = Some L' \<and>
                  handlers L' h = Some (length (hdlrs s)) \<and> run_dir L' = Some (d @ [rid])))"
proof -
  define t where "t = s\<lparr>ticks := Suc (Suc (ticks s)), run_id := Some rid\<rparr>"
  have s1: "set_run_name rn s = t"
    using assms(5) by (simp add: set_run_name_eq t_def)
  have plain: "rid \<noteq> []" "CHR ''/'' \<notin> set rid"
    using assms(3,5) strftime_Ymd_plain strftime_HMS_plain by simp_all
  have t: "obj_at t self = Some L" "run_id t = Some rid"
      "d = log_file_defaullt_dir L @ [strftime_Ymd (clock t (ticks t))]"
      "\<forall>q. strict_prefix q f \<longrightarrow> stat (fs t) q \<noteq> Some File" "fs t f \<noteq> Some Dir"
      "hdlrs t = hdlrs s" "valid_format t = valid_format s"
    using assms(1,6,9,10) by (simp_all add: t_def obj_at_Some_iff)
  have r: "d @ [rid] = d @ (if rid = [] then [] else [rid])"
    using plain by simp
  have f: "f = (d @ [rid]) @ [rid @ ''_'' @ h @ ''.log'']"
    using assms(7) by simp
  from add_file_handler_fields [OF t(1) assms(2) t(2) plain(2) assms(4) t(3) r f assms(8) t(4,5),
      of lvl fmt]
  show ?thesis
    unfolding s1 using t(2,6,7) by auto
qed

theorem set_run_name_reaches_existing_loggers_witness:
  "obj_at file_state 0 = Some (objs file_state ! 0) \<and>
   handlers (objs file_state ! 0) ''second'' = None \<and>
   valid_format file_state FORMAT_BASIC \<and>
   run_id file_state = Some ''2025-03-09_140507'' \<and>
   run_id (set_run_name ''exp1'' file_state) = Some ''2025-03-09_140507_exp1'' \<and>
   fst (add_file_handler 0 ''second'' INFO FORMAT_BASIC (set_run_name ''exp1'' file_state)) = None \<and>
   (\<exists>H. hdlrs (snd (add_file_handler 0 ''second'' INFO FORMAT_BASIC
                      (set_run_name ''exp1'' file_state))) = hdlrs file_state @ [H] \<and>
        sink H = FileStream [''srv'', ''logs'', ''2025-03-09'', ''2025-03-09_140507_exp1'',
                             ''2025-03-09_140507_exp1_second.log''] ''a'' ''utf-8'') \<and>
   sink (hdlrs file_state ! 0) =
     FileStream [''srv'', ''logs'', ''2025-03-09'', ''2025-03-09_140507'',
                 ''2025-03-09_140507_main.log''] ''a'' ''utf-8''"
proof -
  let ?f = "[''srv'', ''logs'', ''2025-03-09'', ''2025-03-09_140507_exp1'',
             ''2025-03-09_140507_exp1_second.log'']"
  have obj: "obj_at file_state 0 = Some (objs file_state ! 0)"
    by (simp add: file_state_eq obj_at_def)
  have fresh: "handlers (objs file_state ! 0) ''second'' = None"
    by (simp add: file_state_eq)
  have fmt: "valid_format file_state FORMAT_BASIC"
    by (simp add: file_state_eq FORMAT_BASIC_def)
  have rid: "''2025-03-09_140507_exp1'' =
      strftime_Ymd (clock file_state (ticks file_state)) @ ''_''
        @ strftime_HMS (clock file_state (Suc (ticks file_state))) @ ''_'' @ ''exp1''"
    by (simp add: file_state_eq clock0_def strftime_Ymd_def strftime_HMS_def pad2_def
        pad4_def digit_def)
  have d: "[''srv'', ''logs'', ''2025-03-09''] =
      log_file_defaullt_dir (objs file_state ! 0)
        @ [strftime_Ymd (clock file_state (Suc (Suc (ticks file_state))))]"
    by (simp add: file_state_eq clock0_def strftime_Ymd_def pad2_def pad4_def digit_def)
  have f: "?f = [''srv'', ''logs'', ''2025-03-09'']
        @ [''2025-03-09_140507_exp1'', ''2025-03-09_140507_exp1'' @ ''_'' @ ''second'' @ ''.log'']"
    by simp
  have ne: "name_error ?f = None"
    by (simp add: name_error_def path_str_def NAME_MAX_def PATH_MAX_def)
  have clear: "\<forall>q. strict_prefix q ?f \<longrightarrow> stat (fs file_state) q \<noteq> Some File"
    by (auto simp: file_state_eq stat_def)
  have notdir: "fs file_state ?f \<noteq> Some Dir"
    by (simp add: file_state_eq)
  have old: "sink (hdlrs file_state ! 0) =
     FileStream [''srv'', ''logs'', ''2025-03-09'', ''2025-03-09_140507'',
                 ''2025-03-09_140507_main.log''] ''a'' ''utf-8''"
    by (simp add: file_state_eq)
  have rid0: "run_id file_state = Some ''2025-03-09_140507''"
    by (simp add: file_state_eq)
  from set_run_name_reaches_existing_loggers [OF obj fresh _ _ rid d f ne clear notdir,
      of INFO FORMAT_BASIC] fmt
  have "run_id (set_run_name ''exp1'' file_state) = Some ''2025-03-09_140507_exp1'' \<and>
   fst (add_file_handler 0 ''second'' INFO FORMAT_BASIC (set_run_name ''exp1'' file_state)) = None \<and>
   (\<exists>H. hdlrs (snd (add_file_handler 0 ''second'' INFO FORMAT_BASIC
                      (set_run_name ''exp1'' file_state))) = hdlrs file_state @ [H] \<and>
        sink H = FileStream ?f ''a'' ''utf-8'')"
    by simp
  with obj fresh fmt rid0 old show ?thesis by blast
qed

text \<open>A run name that the system calls refuse makes the later call raise.\<close>

lemma run_name_nul_raises:
  "fst (add_file_handler 0 ''main'' DEBUG FORMAT_BASIC (set_run_name [CHR 0x00] svc_state))
     = Some ValueError"
  by (simp add: svc_state_eq set_run_name_def compose_global_run_id_def afh_defs eval_defs)

section \<open>Where the code departs from the documented behaviour\<close>

text \<open>
  C2. \<^verbatim>\<open>join_handler\<close> has no check of the handler name. On the Logger \<^verbatim>\<open>db\<close>,
  which has its own handler \<^verbatim>\<open>out\<close> (reference 1), \<^verbatim>\<open>join_handler("svc", "out")\<close>
  returns normally, replaces the entry \<^verbatim>\<open>out\<close> of the handler mapping by the
  handler of \<^verbatim>\<open>svc\<close> (reference 0) and logs no warning; the replaced handler stays
  attached to the \<^verbatim>\<open>logging\<close> logger next to the new one.
\<close>

theorem join_handler_overwrites:
  "handlers (objs two_state ! 1) ''out'' = Some 1 \<and>
   fst (join_handler 1 ''svc'' ''out'' two_state) = None \<and>
   handlers (objs (snd (join_handler 1 ''svc'' ''out'' two_state)) ! 1) ''out'' = Some 0 \<and>
   records (snd (join_handler 1 ''svc'' ''out'' two_state)) = [] \<and>
   phandlers (py_loggers (snd (join_handler 1 ''svc'' ''out'' two_state)) ''db'') = [1, 0]"
  by (simp add: two_run join_handler_def obj_at_def put_obj_def py_addHandler_def Let_def)

text \<open>
  C3. \<^verbatim>\<open>_del_logger\<close> on a registered Logger with an open file handler removes the
  name from the registry and detaches the handler from the \<^verbatim>\<open>logging\<close> logger, but
  it never closes the handler, and the handler mapping of the instance still holds
  the entry.
\<close>

theorem del_logger_leaves_handlers_open:
  "instances file_state ''svc'' = Some 0 \<and>
   fst (del_logger ''svc'' file_state) = None \<and>
   instances (snd (del_logger ''svc'' file_state)) ''svc'' = None \<and>
   phandlers (py_loggers (snd (del_logger ''svc'' file_state)) ''svc'') = [] \<and>
   hclosed (hdlrs (snd (del_logger ''svc'' file_state)) ! 0) = False \<and>
   handlers (objs (snd (del_logger ''svc'' file_state)) ! 0) ''main'' = Some 0"
  by (simp add: file_state_eq del_logger_def obj_at_def py_removeHandler_def Let_def)

text \<open>
  C9. On a Logger to which no file handler was ever added, \<^verbatim>\<open>clear_todays_logs\<close>
  raises \<^verbatim>\<open>AttributeError\<close>: the attribute \<^verbatim>\<open>date_dir\<close> it reads has not been
  assigned. The state is unchanged.
\<close>

theorem clear_todays_logs_before_file_handler:
  "obj_at svc_state 0 = Some (objs svc_state ! 0) \<and>
   date_dir (objs svc_state ! 0) = None \<and>
   clear_todays_logs 0 svc_state = (Some (AttributeError ''date_dir''), svc_state)"
  by (simp add: svc_state_eq clear_todays_logs_def obj_at_def)

end
